theory Spec2Isabelle
  imports Complex_Main
begin

section \<open>Nonce registry (auth module)\<close>

text \<open>
  \<^verbatim>\<open>nonceStore\<close> is a \<^verbatim>\<open>Map<string, number>\<close> from nonce values to absolute expiry
  times in milliseconds. Times are modelled as \<open>int\<close> (milliseconds since the epoch);
  \<^verbatim>\<open>Date.now()\<close> and \<^verbatim>\<open>randomUUID()\<close> are passed in as arguments.
\<close>

type_synonym nonce_store = "string \<rightharpoonup> int"

text \<open>
  \<^verbatim>\<open>issueNonce(ttlSec)\<close>: stores \<^verbatim>\<open>Date.now() + ttlSec * 1000\<close> under a fresh UUID and
  returns the UUID together with the updated store.
\<close>

definition issueNonce :: "nonce_store \<Rightarrow> string \<Rightarrow> int \<Rightarrow> int \<Rightarrow> string \<times> nonce_store" where
  "issueNonce store uuid now ttlSec = (uuid, store(uuid \<mapsto> now + ttlSec * 1000))"

text \<open>
  \<^verbatim>\<open>consumeNonce(nonce)\<close>. The guard \<^verbatim>\<open>if (!exp) return false\<close> is a truthiness test:
  it returns early for a missing entry (\<^verbatim>\<open>undefined\<close>) and also for a stored expiry
  of \<open>0\<close>. Otherwise the entry is deleted and the result is \<^verbatim>\<open>exp > Date.now()\<close>.
\<close>

definition consumeNonce :: "nonce_store \<Rightarrow> int \<Rightarrow> string \<Rightarrow> bool \<times> nonce_store" where
  "consumeNonce store now nonce =
     (case store nonce of
        None \<Rightarrow> (False, store)
      | Some expiry \<Rightarrow>
          if expiry = 0 then (False, store)
          else (expiry > now, store(nonce := None)))"

text \<open>
  Registry operations as they interleave over the life of the process, for statements
  about sequences of calls.
\<close>

datatype reg_op =
    Issue string int int   \<comment> \<open>uuid drawn, clock reading, ttlSec\<close>
  | Consume string int     \<comment> \<open>nonce value, clock reading\<close>

fun reg_step :: "nonce_store \<Rightarrow> reg_op \<Rightarrow> nonce_store" where
  "reg_step store (Issue uuid now ttlSec) = snd (issueNonce store uuid now ttlSec)"
| "reg_step store (Consume nonce now) = snd (consumeNonce store now nonce)"

fun issues :: "string \<Rightarrow> reg_op \<Rightarrow> bool" where
  "issues n (Issue uuid now ttlSec) = (uuid = n)"
| "issues n (Consume nonce now) = False"

text \<open>
  An operation of a server whose clock reads a time after the epoch and whose nonce TTL
  is not negative.
\<close>

fun well_timed :: "reg_op \<Rightarrow> bool" where
  "well_timed (Issue uuid now ttlSec) = (0 < now \<and> 0 \<le> ttlSec)"
| "well_timed (Consume nonce now) = True"


section \<open>Values of the host language\<close>

text \<open>
  A JavaScript \<^verbatim>\<open>number\<close>: not-a-number, the two infinities, or a finite value. Finite
  values are modelled as reals; the rounding of IEEE doubles is not modelled.
\<close>

datatype jsnum = NaN | PosInf | NegInf | Fin real

text \<open>
  Strings are lists of 8-bit characters. The white space of \<^verbatim>\<open>String.prototype.trim\<close>
  and of the regular expression class \<^verbatim>\<open>\s\<close> in that range: tab, line feed, vertical
  tab, form feed, carriage return, space, no-break space. The class \<^verbatim>\<open>.\<close> excludes
  the line terminators.
\<close>

definition isSpace :: "char \<Rightarrow> bool" where
  "isSpace c = (c \<in> set [CHR 0x09, CHR 0x0A, CHR 0x0B, CHR 0x0C, CHR 0x0D, CHR 0x20, CHR 0xA0])"

definition isLineTerminator :: "char \<Rightarrow> bool" where
  "isLineTerminator c = (c \<in> set [CHR 0x0A, CHR 0x0D])"

definition isDigit :: "char \<Rightarrow> bool" where
  "isDigit c = (c \<in> set ''0123456789'')"

definition trim :: "string \<Rightarrow> string" where
  "trim s = rev (dropWhile isSpace (rev (dropWhile isSpace s)))"

text \<open>\<^verbatim>\<open>s.split(sep)\<close> for a one-character separator: never the empty list.\<close>

fun split_on :: "char \<Rightarrow> string \<Rightarrow> string list" where
  "split_on sep [] = [[]]"
| "split_on sep (c # cs) =
     (if c = sep then [] # split_on sep cs
      else (case split_on sep cs of
              [] \<Rightarrow> [[c]]
            | piece # pieces \<Rightarrow> (c # piece) # pieces))"

fun join_with :: "char \<Rightarrow> string list \<Rightarrow> string" where
  "join_with sep [] = []"
| "join_with sep [piece] = piece"
| "join_with sep (piece # pieces) = piece @ sep # join_with sep pieces"

definition startsWith :: "string \<Rightarrow> string \<Rightarrow> bool" where
  "startsWith s pre = (take (length pre) s = pre)"

text \<open>\<^verbatim>\<open>Number(digits)\<close> for a string of decimal digits, as an exact integer.\<close>

definition digitValue :: "char \<Rightarrow> int" where
  "digitValue c = int (of_char c) - 48"

definition decimalValue :: "string \<Rightarrow> int" where
  "decimalValue ds = foldl (\<lambda>acc c. 10 * acc + digitValue c) 0 ds"

text \<open>A thrown \<^verbatim>\<open>Error\<close> is represented by its message.\<close>

type_synonym thrown = string

text \<open>Observable side effects of a request: console output and calls to collaborators.\<close>

datatype effect =
    ConsoleWarn string
  | ConsoleError string
  | ApiCreated
  | ChainQuery string
  | TokenSigned string

fun isLog :: "effect \<Rightarrow> bool" where
  "isLog (ConsoleWarn text) = True"
| "isLog (ConsoleError text) = True"
| "isLog _ = False"

fun isTokenSigned :: "effect \<Rightarrow> bool" where
  "isTokenSigned (TokenSigned token) = True"
| "isTokenSigned _ = False"

fun isChainQuery :: "effect \<Rightarrow> bool" where
  "isChainQuery (ChainQuery addr) = True"
| "isChainQuery _ = False"

section \<open>Challenge message and token helpers (auth module)\<close>

text \<open>
  \<^verbatim>\<open>extractLine(message, key)\<close>: the first line starting with \<^verbatim>\<open>key:\<close>, everything
  after its first colon, trimmed; the empty string when there is no such line.
\<close>

definition extractLine :: "string \<Rightarrow> string \<Rightarrow> string" where
  "extractLine message key =
     (case find (\<lambda>l. startsWith l (key @ '':'')) (split_on CHR 0x0A message) of
        None \<Rightarrow> []
      | Some line \<Rightarrow> trim (join_with CHR '':'' (tl (split_on CHR '':'' line))))"

text \<open>
  The request body of the verify endpoint; \<open>None\<close> stands for a field that is missing
  or not a string. \<^verbatim>\<open>SignedMessageSchema.parse\<close> throws unless the three fields are
  strings of at least 3, 5 and 10 characters; the text of the error that zod renders is
  not modelled.
\<close>

record verify_body =
  body_address :: "string option"
  body_message :: "string option"
  body_signature :: "string option"

definition zodIssues :: thrown where
  "zodIssues = ''ZodError''"

definition SignedMessageSchema_parse :: "verify_body \<Rightarrow> thrown + (string \<times> string \<times> string)" where
  "SignedMessageSchema_parse body =
     (case (body_address body, body_message body, body_signature body) of
        (Some address, Some message, Some signature) \<Rightarrow>
          if length address \<ge> 3 \<and> length message \<ge> 5 \<and> length signature \<ge> 10
          then Inr (address, message, signature)
          else Inl zodIssues
      | _ \<Rightarrow> Inl zodIssues)"

text \<open>
  The claims of a session token as the server reads them:
  \<^verbatim>\<open>{ sub: string; hasAccess?: boolean; iat?: number; exp?: number }\<close>,
  times in seconds.
\<close>

record jwt_payload =
  sub :: string
  hasAccess :: "bool option"
  iat :: "int option"
  exp_claim :: "int option"

section \<open>Environment of a request\<close>

text \<open>
  What a request reads from outside the repository: the clock, the random source, the
  date parser, and the external packages (signature verification of
  \<^verbatim>\<open>@polkadot/util-crypto\<close>, the \<^verbatim>\<open>jsonwebtoken\<close> package, the chain client). They are
  arguments of the model; nothing is assumed about them except where a theorem says so.
  \<^item> \<open>Date_parse\<close> gives \<open>None\<close> for \<^verbatim>\<open>NaN\<close>;
  \<^item> \<open>signatureVerify message signature address\<close> gives \<^verbatim>\<open>isValid\<close>, or the error thrown;
  \<^item> \<open>jwt_sign payload secret ttlMin now\<close> is \<^verbatim>\<open>jwt.sign(payload, secret, {expiresIn: `${ttlMin}m`})\<close>
    at clock reading \<open>now\<close>;
  \<^item> \<open>jwt_verify token secret now\<close> is \<^verbatim>\<open>jwt.verify(token, secret)\<close> at clock reading
    \<open>now\<close>, \<open>None\<close> when it throws; \<open>jwt_decode\<close> is \<^verbatim>\<open>jwt.decode\<close>, \<open>None\<close> for \<^verbatim>\<open>null\<close>;
  \<^item> \<open>GearApi_create\<close> is the outcome of connecting to the node;
  \<^item> \<open>decodeAddress\<close> gives the hex form of an address, \<open>None\<close> when it throws;
  \<^item> \<open>balanceOf normalized\<close> is the outcome of \<^verbatim>\<open>await svc.balanceOf(normalized)\<close> on the
    token client: the error thrown, or \<^verbatim>\<open>Number(result)\<close> for the result returned.
\<close>

record env =
  Date_now :: int
  randomUUID :: string
  Date_parse :: "string \<Rightarrow> int option"
  signatureVerify :: "string \<Rightarrow> string \<Rightarrow> string \<Rightarrow> thrown + bool"
  jwt_sign :: "jwt_payload \<Rightarrow> string \<Rightarrow> int \<Rightarrow> int \<Rightarrow> string"
  jwt_verify :: "string \<Rightarrow> string \<Rightarrow> int \<Rightarrow> jwt_payload option"
  jwt_decode :: "string \<Rightarrow> jwt_payload option"
  GearApi_create :: "thrown + unit"
  decodeAddress :: "string \<Rightarrow> string option"
  balanceOf :: "string \<Rightarrow> thrown + jsnum"

definition signJwt :: "env \<Rightarrow> string \<Rightarrow> int \<Rightarrow> string \<Rightarrow> string" where
  "signJwt w address ttlMin secret =
     jwt_sign w \<lparr>sub = address, hasAccess = Some True, iat = None, exp_claim = None\<rparr>
       secret ttlMin (Date_now w)"

section \<open>Balance lookup (gear module)\<close>

definition toHexAddress :: "env \<Rightarrow> string \<Rightarrow> string \<times> effect list" where
  "toHexAddress w addr =
     (if startsWith addr ''0x'' \<and> length addr > 2 then (addr, [])
      else (case decodeAddress w addr of
              Some hex \<Rightarrow> (hex, [])
            | None \<Rightarrow> (addr, [ConsoleWarn ''[toHexAddress] Error:''])))"

text \<open>
  \<^verbatim>\<open>getVFTBalance(accountAddress, api)\<close>; \<open>api\<close> tells whether the api object is
  truthy. Every fault becomes the number \<open>0\<close>.
\<close>

definition getVFTBalance :: "env \<Rightarrow> string \<Rightarrow> bool \<Rightarrow> jsnum \<times> effect list" where
  "getVFTBalance w accountAddress api =
     (if accountAddress = [] \<or> \<not> api then (Fin 0, [ConsoleWarn ''Account Error''])
      else
        (case toHexAddress w accountAddress of (normalized, fx) \<Rightarrow>
          (case balanceOf w normalized of
             Inl error \<Rightarrow>
               (Fin 0, fx @ [ChainQuery normalized, ConsoleError ''[getVFTBalance] Balance Error:''])
           | Inr balance \<Rightarrow>
               if balance = NaN
               then (Fin 0, fx @ [ChainQuery normalized, ConsoleWarn ''[getVFTBalance]:''])
               else (balance, fx @ [ChainQuery normalized]))))"

section \<open>Server configuration, state and responses\<close>

text \<open>
  The configuration constants of the server. The numeric ones are read by \<^verbatim>\<open>intEnv\<close> and
  are taken to be integers.
\<close>

record config =
  JWT_SECRET :: string
  EXPECTED_DOMAIN :: string
  EXPECTED_CHAIN_ID :: string
  VFT_DECIMALS :: int
  VFT_THRESHOLD_HUMAN :: int
  NONCE_TTL :: int
  JWT_TTL_MIN :: int
  CLOCK_SKEW_MS :: int
  REFRESH_MIN_REMAIN_SEC :: int
  RECHECK_ON_REFRESH :: bool

text \<open>
  The mutable state of the process: the nonce registry and whether the chain connection
  \<^verbatim>\<open>gearApi\<close> has been created.
\<close>

record server_state =
  nonceStore :: nonce_store
  gearApi :: bool

text \<open>The responses of the endpoints, with their HTTP status and JSON fields.\<close>

datatype response =
    ErrorResp nat string
    \<comment> \<open>\<^verbatim>\<open>sendError(res, code, error)\<close>\<close>
  | NonceResp string int
    \<comment> \<open>status 200, \<^verbatim>\<open>{ nonce, expiresIn }\<close>\<close>
  | GatingDenied nat string real real int
    \<comment> \<open>status, \<^verbatim>\<open>{ error, balance, threshold, decimals }\<close>\<close>
  | VerifyOk string real real int
    \<comment> \<open>status 200, \<^verbatim>\<open>{ jwt, balance, threshold, decimals }\<close>\<close>
  | RefreshResp string int bool
    \<comment> \<open>status 200, \<^verbatim>\<open>{ jwt, remainingSec, refreshed }\<close>\<close>
  | EntitlementResp string "bool option"
    \<comment> \<open>status 200, \<^verbatim>\<open>{ ok: true, address, hasAccess }\<close>\<close>

text \<open>The session token that a response hands out, if any.\<close>

fun issuedToken :: "response \<Rightarrow> string option" where
  "issuedToken (VerifyOk token balance threshold decimals) = Some token"
| "issuedToken (RefreshResp token remainingSec refreshed) = Some token"
| "issuedToken _ = None"

section \<open>Helper functions of the server\<close>

definition mustExtract :: "string \<Rightarrow> string \<Rightarrow> thrown + string" where
  "mustExtract message key =
     (let v = extractLine message key in
      if v = [] then Inl (''Error: '' @ key) else Inr v)"

text \<open>
  \<^verbatim>\<open>parseDurationMs\<close>: the trimmed text must match \<^verbatim>\<open>/^(\d+)\s*([smh])?$/i\<close>: one or
  more digits, optional white space, an optional unit letter; the unit defaults to
  seconds. Anything else gives \<open>0\<close>.
\<close>

definition parseDurationMs :: "string \<Rightarrow> int" where
  "parseDurationMs s =
     (let t = trim s;
          digits = takeWhile isDigit t;
          unit = dropWhile isSpace (dropWhile isDigit t);
          val = decimalValue digits
      in if digits = [] then 0
         else if unit = [] \<or> unit = ''s'' \<or> unit = ''S'' then val * 1000
         else if unit = ''m'' \<or> unit = ''M'' then val * 60 * 1000
         else if unit = ''h'' \<or> unit = ''H'' then val * 60 * 60 * 1000
         else 0)"

definition isMessageFresh :: "env \<Rightarrow> string \<Rightarrow> string \<Rightarrow> int \<Rightarrow> bool" where
  "isMessageFresh w issuedAt expiresIn skewMs =
     (case Date_parse w issuedAt of
        None \<Rightarrow> False
      | Some issued \<Rightarrow>
          (let now = Date_now w;
               durMs = parseDurationMs expiresIn
           in if durMs \<le> 0 then False
              else now \<ge> issued - skewMs \<and> now \<le> issued + durMs + skewMs))"

definition MAX_SAFE_INTEGER :: real where
  "MAX_SAFE_INTEGER = 9007199254740991"

text \<open>\<^verbatim>\<open>Math.trunc\<close> followed by \<^verbatim>\<open>BigInt\<close>: rounding towards zero.\<close>

definition trunc :: "real \<Rightarrow> int" where
  "trunc r = (if 0 \<le> r then \<lfloor>r\<rfloor> else \<lceil>r\<rceil>)"

fun toSafeBigInt :: "jsnum \<Rightarrow> int \<times> effect list" where
  "toSafeBigInt (Fin n) =
     (trunc n, if \<bar>n\<bar> > MAX_SAFE_INTEGER then [ConsoleWarn ''[toSafeBigInt] Error:''] else [])"
| "toSafeBigInt NaN = (0, [])"
| "toSafeBigInt PosInf = (0, [])"
| "toSafeBigInt NegInf = (0, [])"

text \<open>
  \<^verbatim>\<open>toHuman\<close>, for display only, in exact real arithmetic (the rounding of the
  floating-point divisions is not modelled).
\<close>

definition toHuman :: "int \<Rightarrow> int \<Rightarrow> real" where
  "toHuman v decimals =
     (if decimals \<le> 0 then real_of_int v
      else
        (let denom = 10 ^ nat (min decimals 15);
             res = real_of_int v / denom
         in if decimals > 15 then res / 10 ^ nat (decimals - 15) else res))"

text \<open>
  \<^verbatim>\<open>BigInt(VFT_THRESHOLD_HUMAN) * (10n ** BigInt(VFT_DECIMALS))\<close>; a negative exponent
  throws a \<^verbatim>\<open>RangeError\<close>.
\<close>

definition thresholdRaw :: "config \<Rightarrow> thrown + int" where
  "thresholdRaw cfg =
     (if VFT_DECIMALS cfg < 0 then Inl ''Exponent must be non-negative''
      else Inr (VFT_THRESHOLD_HUMAN cfg * 10 ^ nat (VFT_DECIMALS cfg)))"

text \<open>The rest of a header after a case-insensitive \<^verbatim>\<open>Bearer\<close>, if it starts with one.\<close>

fun afterBearer :: "string \<Rightarrow> string option" where
  "afterBearer (b # e # a # r # e' # r' # rest) =
     (if (b = CHR ''B'' \<or> b = CHR ''b'') \<and> (e = CHR ''E'' \<or> e = CHR ''e'')
         \<and> (a = CHR ''A'' \<or> a = CHR ''a'') \<and> (r = CHR ''R'' \<or> r = CHR ''r'')
         \<and> (e' = CHR ''E'' \<or> e' = CHR ''e'') \<and> (r' = CHR ''R'' \<or> r' = CHR ''r'')
      then Some rest else None)"
| "afterBearer _ = None"

text \<open>
  \<^verbatim>\<open>getBearerToken\<close>: the header (the empty string when absent) matched against
  \<^verbatim>\<open>/^Bearer\s+(.+)$/i\<close>. The white space run is matched greedily and must leave at
  least one character, none of them a line terminator, for the group.
\<close>

definition getBearerToken :: "string option \<Rightarrow> string option" where
  "getBearerToken authorization =
     (let auth = (case authorization of None \<Rightarrow> [] | Some a \<Rightarrow> a)
      in case afterBearer auth of
           None \<Rightarrow> None
         | Some rest \<Rightarrow>
             (let ws = takeWhile isSpace rest;
                  tok = dropWhile isSpace rest
              in if ws = [] then None
                 else if tok \<noteq> [] then
                   (if list_ex isLineTerminator tok then None else Some tok)
                 else if length ws \<ge> 2 \<and> \<not> isLineTerminator (last ws) then Some [last ws]
                 else None))"

text \<open>The header with a leading \<^verbatim>\<open>/^Bearer\s+/i\<close> removed, as the entitlement endpoint does.\<close>

definition stripBearer :: "string option \<Rightarrow> string" where
  "stripBearer authorization =
     (let auth = (case authorization of None \<Rightarrow> [] | Some a \<Rightarrow> a)
      in case afterBearer auth of
           None \<Rightarrow> auth
         | Some rest \<Rightarrow> if takeWhile isSpace rest = [] then auth else dropWhile isSpace rest)"

definition secondsUntil :: "env \<Rightarrow> int option \<Rightarrow> int" where
  "secondsUntil w e =
     (case e of
        None \<Rightarrow> 0
      | Some x \<Rightarrow> if x = 0 then 0 else x - Date_now w div 1000)"

text \<open>\<^verbatim>\<open>getApi\<close>: the cached connection, or a new one, which may fail.\<close>

definition getApi :: "env \<Rightarrow> server_state \<Rightarrow> (thrown + unit) \<times> server_state \<times> effect list" where
  "getApi w st =
     (if gearApi st then (Inr (), st, [])
      else (case GearApi_create w of
              Inl e \<Rightarrow> (Inl e, st, [])
            | Inr u \<Rightarrow> (Inr (), st\<lparr>gearApi := True\<rparr>, [ApiCreated])))"

section \<open>Endpoints\<close>

text \<open>
  Each endpoint takes the configuration, the environment of the request and the state of
  the process, and returns the response, the new state and the effects in order.
\<close>

definition nonce_endpoint :: "config \<Rightarrow> env \<Rightarrow> server_state \<Rightarrow> response \<times> server_state \<times> effect list" where
  "nonce_endpoint cfg w st =
     (case issueNonce (nonceStore st) (randomUUID w) (Date_now w) (NONCE_TTL cfg) of
        (nonce, store') \<Rightarrow> (NonceResp nonce (NONCE_TTL cfg), st\<lparr>nonceStore := store'\<rparr>, []))"

text \<open>The fields of the challenge message that the verify endpoint extracts.\<close>

record challenge =
  ch_nonce :: string
  ch_domain :: string
  ch_chainId :: string
  ch_issuedAt :: string
  ch_expiresIn :: string

text \<open>Verify, first part: the schema and the five \<^verbatim>\<open>mustExtract\<close> calls.\<close>

definition verify_fields :: "verify_body \<Rightarrow> thrown + (string \<times> string \<times> string \<times> challenge)" where
  "verify_fields body =
     (case SignedMessageSchema_parse body of
        Inl e \<Rightarrow> Inl e
      | Inr (address, message, signature) \<Rightarrow>
     (case mustExtract message ''Nonce'' of Inl e \<Rightarrow> Inl e | Inr nonce \<Rightarrow>
     (case mustExtract message ''Domain'' of Inl e \<Rightarrow> Inl e | Inr domain \<Rightarrow>
     (case mustExtract message ''ChainId'' of Inl e \<Rightarrow> Inl e | Inr chainId \<Rightarrow>
     (case mustExtract message ''IssuedAt'' of Inl e \<Rightarrow> Inl e | Inr issuedAt \<Rightarrow>
     (case mustExtract message ''ExpiresIn'' of Inl e \<Rightarrow> Inl e | Inr expiresIn \<Rightarrow>
        Inr (address, message, signature,
             \<lparr>ch_nonce = nonce, ch_domain = domain, ch_chainId = chainId,
              ch_issuedAt = issuedAt, ch_expiresIn = expiresIn\<rparr>)))))))"

text \<open>
  Verify, last part: the balance lookup and the gating decision, after every check on
  the challenge has passed.
\<close>

definition verify_gate :: "config \<Rightarrow> env \<Rightarrow> server_state \<Rightarrow> string \<Rightarrow> (thrown + response) \<times> server_state \<times> effect list" where
  "verify_gate cfg w st address =
     (case getApi w st of
        (Inl e, st', fx0) \<Rightarrow> (Inl e, st', fx0)
      | (Inr api, st', fx0) \<Rightarrow>
     (case getVFTBalance w address True of (balRawNumber, fx1) \<Rightarrow>
     (case thresholdRaw cfg of
        Inl e \<Rightarrow> (Inl e, st', fx0 @ fx1)
      | Inr thresholdRaw' \<Rightarrow>
     (case toSafeBigInt balRawNumber of (balRawInt, fx2) \<Rightarrow>
        if balRawInt < thresholdRaw' then
          (Inr (GatingDenied 403 ''gating: balance insuficiente''
                  (toHuman balRawInt (VFT_DECIMALS cfg))
                  (toHuman thresholdRaw' (VFT_DECIMALS cfg))
                  (VFT_DECIMALS cfg)),
           st', fx0 @ fx1 @ fx2)
        else
          (let token = signJwt w address (JWT_TTL_MIN cfg) (JWT_SECRET cfg)
           in (Inr (VerifyOk token
                      (toHuman balRawInt (VFT_DECIMALS cfg))
                      (toHuman thresholdRaw' (VFT_DECIMALS cfg))
                      (VFT_DECIMALS cfg)),
               st', fx0 @ fx1 @ fx2 @ [TokenSigned token]))))))"

text \<open>Verify, the body of the \<^verbatim>\<open>try\<close> block: an error thrown, or the response returned.\<close>

definition verify_try :: "config \<Rightarrow> env \<Rightarrow> server_state \<Rightarrow> verify_body \<Rightarrow> (thrown + response) \<times> server_state \<times> effect list" where
  "verify_try cfg w st body =
     (case verify_fields body of
        Inl e \<Rightarrow> (Inl e, st, [])
      | Inr (address, message, signature, ch) \<Rightarrow>
     (case consumeNonce (nonceStore st) (Date_now w) (ch_nonce ch) of (ok, store') \<Rightarrow>
        (let st1 = st\<lparr>nonceStore := store'\<rparr>
         in if \<not> ok then (Inr (ErrorResp 400 ''Invalid Nonce''), st1, [])
            else if EXPECTED_DOMAIN cfg \<noteq> [] \<and> ch_domain ch \<noteq> EXPECTED_DOMAIN cfg
              then (Inr (ErrorResp 400 ''Invalid domain''), st1, [])
            else if EXPECTED_CHAIN_ID cfg \<noteq> [] \<and> ch_chainId ch \<noteq> EXPECTED_CHAIN_ID cfg
              then (Inr (ErrorResp 400 ''Invalid chainId''), st1, [])
            else if \<not> isMessageFresh w (ch_issuedAt ch) (ch_expiresIn ch) (CLOCK_SKEW_MS cfg)
              then (Inr (ErrorResp 400 ''Message Error''), st1, [])
            else (case signatureVerify w message signature address of
                    Inl e \<Rightarrow> (Inl e, st1, [])
                  | Inr isValid \<Rightarrow>
                      if \<not> isValid
                      then (Inr (ErrorResp 401 (''firma inv'' @ [CHR 0xE1] @ ''lida'')), st1, [])
                      else verify_gate cfg w st1 address))))"

text \<open>Verify: the \<^verbatim>\<open>catch\<close> turns every error thrown into a 400 with its message.\<close>

definition verify :: "config \<Rightarrow> env \<Rightarrow> server_state \<Rightarrow> verify_body \<Rightarrow> response \<times> server_state \<times> effect list" where
  "verify cfg w st body =
     (case verify_try cfg w st body of
        (Inl e, st', fx) \<Rightarrow> (ErrorResp 400 e, st', fx @ [ConsoleError ''[/auth/verify] error:''])
      | (Inr resp, st', fx) \<Rightarrow> (resp, st', fx))"

text \<open>
  Refresh, the re-check of the balance (\<^verbatim>\<open>if (RECHECK_ON_REFRESH) { ... }\<close>): \<open>Some\<close> of
  the denial returned from inside the block, \<open>None\<close> when control falls through.
\<close>

definition refresh_recheck :: "config \<Rightarrow> env \<Rightarrow> server_state \<Rightarrow> string \<Rightarrow> (thrown + response option) \<times> server_state \<times> effect list" where
  "refresh_recheck cfg w st subject =
     (if \<not> RECHECK_ON_REFRESH cfg then (Inr None, st, [])
      else
     (case getApi w st of
        (Inl e, st', fx0) \<Rightarrow> (Inl e, st', fx0)
      | (Inr api, st', fx0) \<Rightarrow>
     (case getVFTBalance w subject True of (balRawNumber, fx1) \<Rightarrow>
     (case thresholdRaw cfg of
        Inl e \<Rightarrow> (Inl e, st', fx0 @ fx1)
      | Inr thresholdRaw' \<Rightarrow>
     (case toSafeBigInt balRawNumber of (balRawInt, fx2) \<Rightarrow>
        if balRawInt < thresholdRaw' then
          (Inr (Some (GatingDenied 403 ''gating: Insuficient Balance (refresh)''
                  (toHuman balRawInt (VFT_DECIMALS cfg))
                  (toHuman thresholdRaw' (VFT_DECIMALS cfg))
                  (VFT_DECIMALS cfg))),
           st', fx0 @ fx1 @ fx2)
        else (Inr None, st', fx0 @ fx1 @ fx2))))))"

text \<open>
  Refresh. A missing bearer token is answered before the token is validated; every error
  thrown afterwards is answered by the \<^verbatim>\<open>catch\<close> with 401 \<^verbatim>\<open>Invalid token\<close>.
\<close>

definition refresh :: "config \<Rightarrow> env \<Rightarrow> server_state \<Rightarrow> string option \<Rightarrow> response \<times> server_state \<times> effect list" where
  "refresh cfg w st authorization =
     (case getBearerToken authorization of
        None \<Rightarrow> (ErrorResp 401 ''falta token'', st, [])
      | Some token \<Rightarrow>
     (case jwt_verify w token (JWT_SECRET cfg) (Date_now w) of
        None \<Rightarrow> (ErrorResp 401 ''Invalid token'', st, [])
      | Some payload \<Rightarrow>
        (let remain = secondsUntil w (exp_claim payload)
         in if remain > REFRESH_MIN_REMAIN_SEC cfg then (RefreshResp token remain False, st, [])
            else
              (case refresh_recheck cfg w st (sub payload) of
                 (Inl e, st', fx) \<Rightarrow> (ErrorResp 401 ''Invalid token'', st', fx)
               | (Inr (Some denial), st', fx) \<Rightarrow> (denial, st', fx)
               | (Inr None, st', fx) \<Rightarrow>
                   (let newJwt = signJwt w (sub payload) (JWT_TTL_MIN cfg) (JWT_SECRET cfg);
                        newExp = (case jwt_decode w newJwt of None \<Rightarrow> None | Some p \<Rightarrow> exp_claim p)
                    in (RefreshResp newJwt (secondsUntil w newExp) True,
                        st', fx @ [TokenSigned newJwt]))))))"

text \<open>The entitlement check. It reads and writes no state and calls no collaborator but \<^verbatim>\<open>jwt.verify\<close>.\<close>

definition entitlement :: "config \<Rightarrow> env \<Rightarrow> server_state \<Rightarrow> string option \<Rightarrow> response \<times> server_state \<times> effect list" where
  "entitlement cfg w st authorization =
     (let token = stripBearer authorization
      in if token = [] then (ErrorResp 401 ''Token Error'', st, [])
         else (case jwt_verify w token (JWT_SECRET cfg) (Date_now w) of
                 None \<Rightarrow> (ErrorResp 401 ''Invalid token'', st, [])
               | Some payload \<Rightarrow> (EntitlementResp (sub payload) (hasAccess payload), st, [])))"

section \<open>A test deployment\<close>

text \<open>
  A concrete configuration and concrete stand-ins for the collaborators, on which the
  theorems below are exercised. The stand-in for the token package writes the
  \<^verbatim>\<open>hasAccess\<close> claim as the first character of the token and the subject after it;
  every token expires at \<open>test_exp\<close> (in seconds), and the only key that validates is
  \<open>k\<close>.
\<close>

definition test_cfg :: config where
  "test_cfg = \<lparr>JWT_SECRET = ''k'', EXPECTED_DOMAIN = ''app.example'', EXPECTED_CHAIN_ID = ''vara'',
     VFT_DECIMALS = 0, VFT_THRESHOLD_HUMAN = 3000, NONCE_TTL = 600, JWT_TTL_MIN = 20,
     CLOCK_SKEW_MS = 120000, REFRESH_MIN_REMAIN_SEC = 300, RECHECK_ON_REFRESH = True\<rparr>"

definition test_exp :: int where
  "test_exp = 1700001200"

definition test_sign :: "jwt_payload \<Rightarrow> string \<Rightarrow> int \<Rightarrow> int \<Rightarrow> string" where
  "test_sign p secret ttlMin now =
     (case hasAccess p of None \<Rightarrow> CHR ''N'' | Some True \<Rightarrow> CHR ''T'' | Some False \<Rightarrow> CHR ''F'')
       # sub p"

definition test_decode :: "string \<Rightarrow> jwt_payload option" where
  "test_decode token =
     (case token of
        [] \<Rightarrow> None
      | c # subject \<Rightarrow>
          if c = CHR ''T'' then Some \<lparr>sub = subject, hasAccess = Some True, iat = None, exp_claim = Some test_exp\<rparr>
          else if c = CHR ''F'' then Some \<lparr>sub = subject, hasAccess = Some False, iat = None, exp_claim = Some test_exp\<rparr>
          else if c = CHR ''N'' then Some \<lparr>sub = subject, hasAccess = None, iat = None, exp_claim = Some test_exp\<rparr>
          else None)"

definition test_verify :: "string \<Rightarrow> string \<Rightarrow> int \<Rightarrow> jwt_payload option" where
  "test_verify token secret now =
     (if secret = ''k'' \<and> now div 1000 < test_exp then test_decode token else None)"

definition test_env :: "int \<Rightarrow> jsnum \<Rightarrow> env" where
  "test_env now balance =
     \<lparr>Date_now = now, randomUUID = ''n-2'',
      Date_parse = (\<lambda>s. if s = ''2023-11-14T22:13:20.000Z'' then Some 1700000000000 else None),
      signatureVerify = (\<lambda>message signature address. Inr (signature = ''0xsigned-by-alice'')),
      jwt_sign = test_sign, jwt_verify = test_verify, jwt_decode = test_decode,
      GearApi_create = Inr (),
      decodeAddress = (\<lambda>addr. Some (''0x'' @ addr)),
      balanceOf = (\<lambda>normalized. Inr balance)\<rparr>"

definition test_message :: string where
  "test_message = ''Nonce: n-1'' @ [CHR 0x0A] @ ''Domain: app.example'' @ [CHR 0x0A]
     @ ''ChainId: vara'' @ [CHR 0x0A] @ ''IssuedAt: 2023-11-14T22:13:20.000Z'' @ [CHR 0x0A]
     @ ''ExpiresIn: 10m''"

definition test_body :: verify_body where
  "test_body = \<lparr>body_address = Some ''alice'', body_message = Some test_message,
     body_signature = Some ''0xsigned-by-alice''\<rparr>"

definition test_state :: server_state where
  "test_state = \<lparr>nonceStore = [''n-1'' \<mapsto> 1700000600000], gearApi = False\<rparr>"

section \<open>Properties of the nonce registry\<close>

lemma reg_step_keeps_absent:
  assumes "store n = None" and "\<not> issues n op"
  shows "reg_step store op n = None"
  using assms
  by (cases op) (auto simp: issueNonce_def consumeNonce_def split: option.splits)

lemma reg_steps_keep_absent:
  assumes "store n = None" and "\<forall>op \<in> set ops. \<not> issues n op"
  shows "foldl reg_step store ops n = None"
  using assms
proof (induction ops arbitrary: store)
  case Nil
  then show ?case by simp
next
  case (Cons op ops)
  have "reg_step store op n = None"
    using Cons.prems by (simp add: reg_step_keeps_absent)
  then show ?case using Cons by simp
qed

lemma consumeNonce_absent:
  assumes "store n = None"
  shows "fst (consumeNonce store now n) = False"
  using assms by (simp add: consumeNonce_def)

text \<open>Every expiry in a registry built by well-timed operations is positive.\<close>

lemma reg_step_positive:
  assumes "\<forall>n e. store n = Some e \<longrightarrow> 0 < e" and "well_timed op"
  shows "\<forall>n e. reg_step store op n = Some e \<longrightarrow> 0 < e"
proof (cases op)
  case (Issue uuid now ttlSec)
  with assms show ?thesis by (auto simp: issueNonce_def)
next
  case (Consume nonce now)
  with assms show ?thesis
    by (auto simp: consumeNonce_def split: option.splits if_splits)
qed

lemma reg_steps_positive:
  assumes "\<forall>n e. store n = Some e \<longrightarrow> 0 < e" and "\<forall>op \<in> set history. well_timed op"
  shows "\<forall>n e. foldl reg_step store history n = Some e \<longrightarrow> 0 < e"
  using assms
proof (induction history arbitrary: store)
  case Nil
  then show ?case by simp
next
  case (Cons op history)
  have "well_timed op"
    using Cons.prems by simp
  with Cons.prems(1) have "\<forall>n e. reg_step store op n = Some e \<longrightarrow> 0 < e"
    by (rule reg_step_positive)
  then show ?case using Cons by simp
qed

text \<open>
  Claim C1. Take any registry that the server has built from the empty one by issue and
  consume calls, on a clock after the epoch and with a non-negative TTL (so that every
  stored expiry is positive; \<open>consumeNonce\<close> treats a stored expiry of \<open>0\<close> like a missing
  entry). For every nonce value: the first \<open>consumeNonce\<close> leaves no entry for it,
  whether or not the expiry has passed, and leaves every other entry alone; it returns
  true exactly when the entry existed and its expiry lies after the current time; and
  after that call, whatever registry operations follow, as long as none of them issues
  the same value again, every further \<open>consumeNonce\<close> of the value returns false. So a
  nonce is accepted at most once.
\<close>

theorem consumeNonce_one_shot:
  assumes history: "\<forall>op \<in> set history. well_timed op"
    and store: "store = foldl reg_step Map.empty history"
  shows "snd (consumeNonce store now nonce) nonce = None
    \<and> (\<forall>k. k \<noteq> nonce \<longrightarrow> snd (consumeNonce store now nonce) k = store k)
    \<and> fst (consumeNonce store now nonce) = (\<exists>e. store nonce = Some e \<and> now < e)
    \<and> ((\<forall>op \<in> set ops. \<not> issues nonce op) \<longrightarrow>
           fst (consumeNonce (foldl reg_step (snd (consumeNonce store now nonce)) ops) now' nonce) = False)"
proof -
  have "\<forall>n e. store n = Some e \<longrightarrow> 0 < e"
    unfolding store using history by (intro reg_steps_positive) simp_all
  then have entry: "store nonce \<noteq> Some 0"
    by auto
  have gone: "snd (consumeNonce store now nonce) nonce = None"
    using entry by (cases "store nonce") (simp_all add: consumeNonce_def)
  have others: "\<forall>k. k \<noteq> nonce \<longrightarrow> snd (consumeNonce store now nonce) k = store k"
    by (cases "store nonce") (simp_all add: consumeNonce_def)
  have result: "fst (consumeNonce store now nonce) = (\<exists>e. store nonce = Some e \<and> now < e)"
    using entry by (cases "store nonce") (simp_all add: consumeNonce_def)
  have later: "(\<forall>op \<in> set ops. \<not> issues nonce op) \<longrightarrow>
           fst (consumeNonce (foldl reg_step (snd (consumeNonce store now nonce)) ops) now' nonce) = False"
    using gone by (simp add: reg_steps_keep_absent consumeNonce_absent)
  from gone others result later show ?thesis by blast
qed

theorem consumeNonce_one_shot_witness:
  "fst (consumeNonce (foldl reg_step Map.empty [Issue ''n-1'' 1700000000000 600]) 1700000300000 ''n-1'')
   \<and> snd (consumeNonce (foldl reg_step Map.empty [Issue ''n-1'' 1700000000000 600]) 1700000300000 ''n-1'')
        ''n-1'' = None
   \<and> fst (consumeNonce
          (foldl reg_step
             (snd (consumeNonce (foldl reg_step Map.empty [Issue ''n-1'' 1700000000000 600])
                     1700000300000 ''n-1''))
             [Issue ''n-2'' 1700000301000 600, Consume ''n-1'' 1700000302000])
          1700000303000 ''n-1'') = False
   \<and> fst (consumeNonce (foldl reg_step Map.empty [Issue ''n-1'' 1700000000000 600]) 1700000600000 ''n-1'')
       = False
   \<and> snd (consumeNonce (foldl reg_step Map.empty [Issue ''n-1'' 1700000000000 600]) 1700000600000 ''n-1'')
        ''n-1'' = None"
proof -
  let ?store = "foldl reg_step Map.empty [Issue ''n-1'' 1700000000000 600]"
  have history: "\<forall>op \<in> set [Issue ''n-1'' 1700000000000 600]. well_timed op"
    by simp
  have entry: "?store ''n-1'' = Some 1700000600000"
    by (simp add: issueNonce_def)
  have ops: "\<forall>op \<in> set [Issue ''n-2'' 1700000301000 600, Consume ''n-1'' 1700000302000].
               \<not> issues ''n-1'' op"
    by simp
  from consumeNonce_one_shot [OF history refl, where nonce = "''n-1''"
      and now = 1700000300000 and now' = 1700000303000
      and ops = "[Issue ''n-2'' 1700000301000 600, Consume ''n-1'' 1700000302000]"] ops
  have live: "fst (consumeNonce ?store 1700000300000 ''n-1'')
      \<and> snd (consumeNonce ?store 1700000300000 ''n-1'') ''n-1'' = None
      \<and> fst (consumeNonce
            (foldl reg_step (snd (consumeNonce ?store 1700000300000 ''n-1''))
               [Issue ''n-2'' 1700000301000 600, Consume ''n-1'' 1700000302000])
            1700000303000 ''n-1'') = False"
    unfolding entry by simp
  from consumeNonce_one_shot [OF history refl, where nonce = "''n-1''"
      and now = 1700000600000 and ops = "[]"]
  have expired: "fst (consumeNonce ?store 1700000600000 ''n-1'') = False
      \<and> snd (consumeNonce ?store 1700000600000 ''n-1'') ''n-1'' = None"
    unfolding entry by simp
  from live expired show ?thesis by simp
qed

section \<open>Properties of the verify endpoint\<close>

lemma verify_fields_message:
  assumes "verify_fields body = Inr (address, message, signature, ch)"
  shows "body_message body = Some message \<and> ch_issuedAt ch = extractLine message ''IssuedAt''"
  using assms
  by (auto simp: verify_fields_def SignedMessageSchema_parse_def mustExtract_def Let_def
      split: sum.splits option.splits if_splits prod.splits)

lemma consumeNonce_fst:
  "fst (consumeNonce store now n) = (\<exists>e. store n = Some e \<and> e \<noteq> 0 \<and> now < e)"
  by (cases "store n") (simp_all add: consumeNonce_def)

lemma consumeNonce_snd_true:
  "fst (consumeNonce store now n) \<Longrightarrow> snd (consumeNonce store now n) n = None"
  by (cases "store n") (simp_all add: consumeNonce_def split: if_splits)

lemma getApi_nonceStore:
  "nonceStore (fst (snd (getApi w st))) = nonceStore st"
  by (simp add: getApi_def split: sum.splits)

lemma verify_gate_nonceStore:
  "nonceStore (fst (snd (verify_gate cfg w st address))) = nonceStore st"
proof -
  obtain r st' fx where g: "getApi w st = (r, st', fx)"
    by (cases "getApi w st") auto
  then have "nonceStore st' = nonceStore st"
    using getApi_nonceStore [of w st] by simp
  then show ?thesis
    using g by (simp add: verify_gate_def Let_def split: prod.splits sum.splits)
qed

lemma verify_try_nonce_state:
  assumes "verify_fields body = Inr (address, message, signature, ch)"
  shows "nonceStore (fst (snd (verify_try cfg w st body)))
           = snd (consumeNonce (nonceStore st) (Date_now w) (ch_nonce ch))"
  using assms
  by (simp add: verify_try_def Let_def verify_gate_nonceStore split: prod.splits sum.splits)

lemma verify_state:
  "fst (snd (verify cfg w st body)) = fst (snd (verify_try cfg w st body))"
  by (simp add: verify_def split: prod.splits sum.splits)

lemma verify_try_checks:
  assumes "verify_fields body = Inr (address, message, signature, ch)"
  shows "verify_try cfg w st body =
     (let st1 = st\<lparr>nonceStore := snd (consumeNonce (nonceStore st) (Date_now w) (ch_nonce ch))\<rparr>
      in if \<not> fst (consumeNonce (nonceStore st) (Date_now w) (ch_nonce ch))
           then (Inr (ErrorResp 400 ''Invalid Nonce''), st1, [])
         else if EXPECTED_DOMAIN cfg \<noteq> [] \<and> ch_domain ch \<noteq> EXPECTED_DOMAIN cfg
           then (Inr (ErrorResp 400 ''Invalid domain''), st1, [])
         else if EXPECTED_CHAIN_ID cfg \<noteq> [] \<and> ch_chainId ch \<noteq> EXPECTED_CHAIN_ID cfg
           then (Inr (ErrorResp 400 ''Invalid chainId''), st1, [])
         else if \<not> isMessageFresh w (ch_issuedAt ch) (ch_expiresIn ch) (CLOCK_SKEW_MS cfg)
           then (Inr (ErrorResp 400 ''Message Error''), st1, [])
         else (case signatureVerify w message signature address of
                 Inl e \<Rightarrow> (Inl e, st1, [])
               | Inr isValid \<Rightarrow>
                   if \<not> isValid
                   then (Inr (ErrorResp 401 (''firma inv'' @ [CHR 0xE1] @ ''lida'')), st1, [])
                   else verify_gate cfg w st1 address))"
proof -
  obtain ok store' where c: "consumeNonce (nonceStore st) (Date_now w) (ch_nonce ch) = (ok, store')"
    by (cases "consumeNonce (nonceStore st) (Date_now w) (ch_nonce ch)") auto
  show ?thesis
    using assms c by (simp add: verify_try_def Let_def)
qed

lemma verify_after_fields:
  assumes "verify_fields body = Inr (address, message, signature, ch)"
    and "\<not> fst (consumeNonce (nonceStore st) (Date_now w) (ch_nonce ch))"
  shows "fst (verify cfg w st body) = ErrorResp 400 ''Invalid Nonce''"
  using assms
  by (simp add: verify_def verify_try_checks Let_def)

lemma verify_fields_error:
  assumes "verify_fields body = Inl e"
  shows "fst (verify cfg w st body) = ErrorResp 400 e"
  using assms by (simp add: verify_def verify_try_def)

lemma test_fields:
  "verify_fields test_body = Inr (''alice'', test_message, ''0xsigned-by-alice'',
     \<lparr>ch_nonce = ''n-1'', ch_domain = ''app.example'', ch_chainId = ''vara'',
      ch_issuedAt = ''2023-11-14T22:13:20.000Z'', ch_expiresIn = ''10m''\<rparr>)"
  by code_simp

lemma isMessageFresh_iff:
  "isMessageFresh w issuedAt expiresIn skewMs =
     (\<exists>issued. Date_parse w issuedAt = Some issued
        \<and> 0 < parseDurationMs expiresIn
        \<and> issued - skewMs \<le> Date_now w
        \<and> Date_now w \<le> issued + parseDurationMs expiresIn + skewMs)"
  by (cases "Date_parse w issuedAt") (auto simp: isMessageFresh_def Let_def)

text \<open>
  Claim C2. The nonce is consumed before the domain, chain-id, freshness and signature
  checks. For every request that passes the schema and carries all five message fields,
  on a clock that reads a time not before the epoch: if the nonce is absent from the
  registry or expired, the response is 400 \<^verbatim>\<open>Invalid Nonce\<close>, whatever the signature
  check and the balance lookup would say; and if the nonce is present and unexpired, it
  is gone from the registry after the request, whatever happens next, in particular
  when the domain, chain-id, freshness or signature check fails (the response is then
  the error of the first check that fails, in that order).
\<close>

theorem verify_nonce_first:
  assumes fields: "verify_fields body = Inr (address, message, signature, ch)"
    and clock: "0 \<le> Date_now w"
  shows "((nonceStore st (ch_nonce ch) = None
            \<or> (\<exists>e. nonceStore st (ch_nonce ch) = Some e \<and> e \<le> Date_now w))
          \<longrightarrow> fst (verify cfg w st body) = ErrorResp 400 ''Invalid Nonce'')
    \<and> ((\<exists>e. nonceStore st (ch_nonce ch) = Some e \<and> Date_now w < e)
          \<longrightarrow> nonceStore (fst (snd (verify cfg w st body))) (ch_nonce ch) = None
            \<and> (EXPECTED_DOMAIN cfg \<noteq> [] \<and> ch_domain ch \<noteq> EXPECTED_DOMAIN cfg
                 \<longrightarrow> fst (verify cfg w st body) = ErrorResp 400 ''Invalid domain'')
            \<and> (EXPECTED_CHAIN_ID cfg \<noteq> [] \<and> ch_chainId ch \<noteq> EXPECTED_CHAIN_ID cfg
                 \<longrightarrow> fst (verify cfg w st body) \<in> set [ErrorResp 400 ''Invalid domain'', ErrorResp 400 ''Invalid chainId''])
            \<and> (\<not> isMessageFresh w (ch_issuedAt ch) (ch_expiresIn ch) (CLOCK_SKEW_MS cfg)
                 \<longrightarrow> fst (verify cfg w st body) \<in> set [ErrorResp 400 ''Invalid domain'',
                       ErrorResp 400 ''Invalid chainId'', ErrorResp 400 ''Message Error''])
            \<and> (signatureVerify w message signature address = Inr False
                 \<longrightarrow> fst (verify cfg w st body) \<in> set [ErrorResp 400 ''Invalid domain'',
                       ErrorResp 400 ''Invalid chainId'', ErrorResp 400 ''Message Error'',
                       ErrorResp 401 (''firma inv'' @ [CHR 0xE1] @ ''lida'')]))"
proof -
  let ?n = "ch_nonce ch"
  let ?c = "consumeNonce (nonceStore st) (Date_now w) ?n"
  have invalid: "fst (verify cfg w st body) = ErrorResp 400 ''Invalid Nonce''"
    if "nonceStore st ?n = None \<or> (\<exists>e. nonceStore st ?n = Some e \<and> e \<le> Date_now w)"
  proof -
    from that have "\<not> fst ?c" by (auto simp: consumeNonce_fst)
    with fields show ?thesis by (rule verify_after_fields)
  qed
  have valid: "nonceStore (fst (snd (verify cfg w st body))) ?n = None
      \<and> (EXPECTED_DOMAIN cfg \<noteq> [] \<and> ch_domain ch \<noteq> EXPECTED_DOMAIN cfg
           \<longrightarrow> fst (verify cfg w st body) = ErrorResp 400 ''Invalid domain'')
      \<and> (EXPECTED_CHAIN_ID cfg \<noteq> [] \<and> ch_chainId ch \<noteq> EXPECTED_CHAIN_ID cfg
           \<longrightarrow> fst (verify cfg w st body) \<in> set [ErrorResp 400 ''Invalid domain'', ErrorResp 400 ''Invalid chainId''])
      \<and> (\<not> isMessageFresh w (ch_issuedAt ch) (ch_expiresIn ch) (CLOCK_SKEW_MS cfg)
           \<longrightarrow> fst (verify cfg w st body) \<in> set [ErrorResp 400 ''Invalid domain'',
                 ErrorResp 400 ''Invalid chainId'', ErrorResp 400 ''Message Error''])
      \<and> (signatureVerify w message signature address = Inr False
           \<longrightarrow> fst (verify cfg w st body) \<in> set [ErrorResp 400 ''Invalid domain'',
                 ErrorResp 400 ''Invalid chainId'', ErrorResp 400 ''Message Error'',
                 ErrorResp 401 (''firma inv'' @ [CHR 0xE1] @ ''lida'')])"
    if "\<exists>e. nonceStore st ?n = Some e \<and> Date_now w < e"
  proof -
    from that clock have ok: "fst ?c" by (auto simp: consumeNonce_fst)
    then have gone: "snd ?c ?n = None" by (rule consumeNonce_snd_true)
    have removed: "nonceStore (fst (snd (verify cfg w st body))) ?n = None"
      using gone by (simp add: verify_state verify_try_nonce_state [OF fields])
    have resp: "fst (verify cfg w st body) = (case fst (verify_try cfg w st body) of Inl e \<Rightarrow> ErrorResp 400 e | Inr r \<Rightarrow> r)"
      by (simp add: verify_def split: prod.splits sum.splits)
    show ?thesis
      using removed ok by (simp add: resp verify_try_checks [OF fields] Let_def)
  qed
  from invalid valid show ?thesis by blast
qed

theorem verify_nonce_first_witness:
  "fst (verify test_cfg (test_env 1700000000000 (Fin 5000)) (test_state\<lparr>nonceStore := Map.empty\<rparr>) test_body)
     = ErrorResp 400 ''Invalid Nonce''
   \<and> nonceStore (fst (snd (verify (test_cfg\<lparr>EXPECTED_DOMAIN := ''other.example''\<rparr>)
        (test_env 1700000000000 (Fin 5000)) test_state test_body))) ''n-1'' = None
   \<and> fst (verify (test_cfg\<lparr>EXPECTED_DOMAIN := ''other.example''\<rparr>)
        (test_env 1700000000000 (Fin 5000)) test_state test_body) = ErrorResp 400 ''Invalid domain''"
proof -
  have clock: "0 \<le> Date_now (test_env 1700000000000 (Fin 5000))"
    by (simp add: test_env_def)
  have absent: "nonceStore (test_state\<lparr>nonceStore := Map.empty\<rparr>) ''n-1'' = None"
    by simp
  have present: "\<exists>e. nonceStore test_state ''n-1'' = Some e
      \<and> Date_now (test_env 1700000000000 (Fin 5000)) < e"
    by (simp add: test_state_def test_env_def)
  have domain: "EXPECTED_DOMAIN (test_cfg\<lparr>EXPECTED_DOMAIN := ''other.example''\<rparr>) \<noteq> []
      \<and> ''app.example'' \<noteq> EXPECTED_DOMAIN (test_cfg\<lparr>EXPECTED_DOMAIN := ''other.example''\<rparr>)"
    by simp
  from verify_nonce_first [OF test_fields clock, where st = "test_state\<lparr>nonceStore := Map.empty\<rparr>"
      and cfg = test_cfg] absent
  have first: "fst (verify test_cfg (test_env 1700000000000 (Fin 5000))
      (test_state\<lparr>nonceStore := Map.empty\<rparr>) test_body) = ErrorResp 400 ''Invalid Nonce''"
    by simp
  from verify_nonce_first [OF test_fields clock, where st = test_state
      and cfg = "test_cfg\<lparr>EXPECTED_DOMAIN := ''other.example''\<rparr>"] present domain
  have second: "nonceStore (fst (snd (verify (test_cfg\<lparr>EXPECTED_DOMAIN := ''other.example''\<rparr>)
        (test_env 1700000000000 (Fin 5000)) test_state test_body))) ''n-1'' = None
   \<and> fst (verify (test_cfg\<lparr>EXPECTED_DOMAIN := ''other.example''\<rparr>)
        (test_env 1700000000000 (Fin 5000)) test_state test_body) = ErrorResp 400 ''Invalid domain''"
    by simp
  from first second show ?thesis by simp
qed

text \<open>
  Claim C3. The freshness check holds exactly when \<^verbatim>\<open>IssuedAt\<close> parses, the parsed
  \<^verbatim>\<open>ExpiresIn\<close> duration is strictly positive and the clock lies in the closed interval
  from \<open>issued - skew\<close> to \<open>issued + dur + skew\<close>; a request that reaches the check
  and fails it is answered 400 \<^verbatim>\<open>Message Error\<close>; and a message whose \<^verbatim>\<open>IssuedAt\<close>
  lies in the future by more than the skew is always answered with a 400 error and no
  token, whatever the signature check and the balance lookup would say.
\<close>

theorem verify_freshness:
  "isMessageFresh w issuedAt expiresIn skewMs =
     (\<exists>issued. Date_parse w issuedAt = Some issued
        \<and> 0 < parseDurationMs expiresIn
        \<and> issued - skewMs \<le> Date_now w
        \<and> Date_now w \<le> issued + parseDurationMs expiresIn + skewMs)
   \<and> (verify_fields body = Inr (address, message, signature, ch)
        \<and> fst (consumeNonce (nonceStore st) (Date_now w) (ch_nonce ch))
        \<and> (EXPECTED_DOMAIN cfg = [] \<or> ch_domain ch = EXPECTED_DOMAIN cfg)
        \<and> (EXPECTED_CHAIN_ID cfg = [] \<or> ch_chainId ch = EXPECTED_CHAIN_ID cfg)
        \<and> \<not> isMessageFresh w (ch_issuedAt ch) (ch_expiresIn ch) (CLOCK_SKEW_MS cfg)
       \<longrightarrow> fst (verify cfg w st body) = ErrorResp 400 ''Message Error'')
   \<and> (body_message body = Some message
        \<and> Date_parse w (extractLine message ''IssuedAt'') = Some issued
        \<and> Date_now w < issued - CLOCK_SKEW_MS cfg
       \<longrightarrow> (\<exists>msg. fst (verify cfg w st body) = ErrorResp 400 msg)
           \<and> issuedToken (fst (verify cfg w st body)) = None)"
proof -
  have reached: "fst (verify cfg w st body) = ErrorResp 400 ''Message Error''"
    if "verify_fields body = Inr (address, message, signature, ch)"
      and "fst (consumeNonce (nonceStore st) (Date_now w) (ch_nonce ch))"
      and "EXPECTED_DOMAIN cfg = [] \<or> ch_domain ch = EXPECTED_DOMAIN cfg"
      and "EXPECTED_CHAIN_ID cfg = [] \<or> ch_chainId ch = EXPECTED_CHAIN_ID cfg"
      and "\<not> isMessageFresh w (ch_issuedAt ch) (ch_expiresIn ch) (CLOCK_SKEW_MS cfg)"
    using that by (auto simp: verify_def verify_try_checks Let_def)
  have future: "\<exists>msg. fst (verify cfg w st body) = ErrorResp 400 msg"
    if msg: "body_message body = Some message"
      and parsed: "Date_parse w (extractLine message ''IssuedAt'') = Some issued"
      and ahead: "Date_now w < issued - CLOCK_SKEW_MS cfg"
  proof (cases "verify_fields body")
    case (Inl e)
    then show ?thesis by (simp add: verify_fields_error)
  next
    case (Inr r)
    then obtain a m s c where f: "verify_fields body = Inr (a, m, s, c)"
      by (cases r) auto
    from verify_fields_message [OF f] msg
    have "ch_issuedAt c = extractLine message ''IssuedAt''" by simp
    with parsed ahead
    have stale: "\<not> isMessageFresh w (ch_issuedAt c) (ch_expiresIn c) (CLOCK_SKEW_MS cfg)"
      by (simp add: isMessageFresh_iff)
    show ?thesis
      using stale by (simp add: verify_def verify_try_checks [OF f] Let_def)
  qed
  have no_token: "issuedToken (fst (verify cfg w st body)) = None"
    if "\<exists>msg. fst (verify cfg w st body) = ErrorResp 400 msg"
    using that by auto
  from reached future no_token show ?thesis
    using isMessageFresh_iff [of w issuedAt expiresIn skewMs] by blast
qed

theorem verify_freshness_witness:
  "isMessageFresh (test_env 1700000000000 (Fin 5000)) ''2023-11-14T22:13:20.000Z'' ''10m'' 120000
   \<and> \<not> isMessageFresh (test_env 1699999000000 (Fin 5000)) ''2023-11-14T22:13:20.000Z'' ''10m'' 120000
   \<and> fst (verify test_cfg (test_env 1699999000000 (Fin 5000)) test_state test_body)
       = ErrorResp 400 ''Message Error''
   \<and> issuedToken (fst (verify test_cfg (test_env 1699999000000 (Fin 5000)) test_state test_body)) = None"
proof -
  let ?w = "test_env 1699999000000 (Fin 5000)"
  have dur: "parseDurationMs ''10m'' = 600000"
    by code_simp
  have fresh: "isMessageFresh (test_env 1700000000000 (Fin 5000)) ''2023-11-14T22:13:20.000Z'' ''10m'' 120000"
    using verify_freshness [where w = "test_env 1700000000000 (Fin 5000)"
        and issuedAt = "''2023-11-14T22:13:20.000Z''" and expiresIn = "''10m''" and skewMs = 120000]
    by (simp add: dur test_env_def)
  have stale: "\<not> isMessageFresh ?w ''2023-11-14T22:13:20.000Z'' ''10m'' 120000"
    using verify_freshness [where w = ?w
        and issuedAt = "''2023-11-14T22:13:20.000Z''" and expiresIn = "''10m''" and skewMs = 120000]
    by (simp add: dur test_env_def)
  have consumed: "fst (consumeNonce (nonceStore test_state) (Date_now ?w) ''n-1'')"
    by (simp add: consumeNonce_fst test_state_def test_env_def)
  have cfg: "EXPECTED_DOMAIN test_cfg = ''app.example'' \<and> EXPECTED_CHAIN_ID test_cfg = ''vara''
      \<and> CLOCK_SKEW_MS test_cfg = 120000"
    by (simp add: test_cfg_def)
  have msg: "body_message test_body = Some test_message"
    by (simp add: test_body_def)
  have issued: "extractLine test_message ''IssuedAt'' = ''2023-11-14T22:13:20.000Z''"
    by code_simp
  have parsed: "Date_parse ?w (extractLine test_message ''IssuedAt'') = Some 1700000000000"
    by (simp add: issued test_env_def)
  have ahead: "Date_now ?w < 1700000000000 - CLOCK_SKEW_MS test_cfg"
    by (simp add: test_env_def test_cfg_def)
  from verify_freshness [where w = ?w and body = test_body and st = test_state and cfg = test_cfg
      and message = test_message and issued = 1700000000000
      and ch = "\<lparr>ch_nonce = ''n-1'', ch_domain = ''app.example'', ch_chainId = ''vara'',
          ch_issuedAt = ''2023-11-14T22:13:20.000Z'', ch_expiresIn = ''10m''\<rparr>"
      and address = "''alice''" and signature = "''0xsigned-by-alice''"]
    test_fields consumed cfg stale msg parsed ahead
  have "fst (verify test_cfg ?w test_state test_body) = ErrorResp 400 ''Message Error''
      \<and> issuedToken (fst (verify test_cfg ?w test_state test_body)) = None"
    by simp
  with fresh stale show ?thesis by simp
qed

section \<open>Properties of the balance conversion\<close>

text \<open>
  Against claim C5 as stated: the finite number \<open>2 ^ 60\<close> is beyond the largest safe
  integer; \<open>toSafeBigInt\<close> logs a warning for it and returns it unchanged, not \<open>0\<close>.
\<close>

theorem toSafeBigInt_out_of_range_counterexample:
  "\<bar>1152921504606846976\<bar> > MAX_SAFE_INTEGER
   \<and> toSafeBigInt (Fin 1152921504606846976)
       = (1152921504606846976, [ConsoleWarn ''[toSafeBigInt] Error:''])
   \<and> fst (toSafeBigInt (Fin 1152921504606846976)) \<noteq> 0"
  by (simp add: MAX_SAFE_INTEGER_def trunc_def)

text \<open>
  Claim C5, as the code has it. The conversion maps every non-finite input (not-a-number
  and the two infinities) to \<open>0\<close>, without logging. For a finite input whose absolute
  value exceeds the largest safe integer it logs a warning and returns the value
  truncated towards zero, which is then at least \<open>2 ^ 53 - 1\<close> in absolute value; for
  every other finite input it returns the truncated value without logging. The result
  of a finite input is always within one of the input.
\<close>

theorem toSafeBigInt_conversion:
  "(n = NaN \<or> n = PosInf \<or> n = NegInf \<longrightarrow> toSafeBigInt n = (0, []))
   \<and> (\<bar>r\<bar> > MAX_SAFE_INTEGER \<longrightarrow>
        toSafeBigInt (Fin r) = (trunc r, [ConsoleWarn ''[toSafeBigInt] Error:''])
        \<and> \<bar>trunc r\<bar> \<ge> 9007199254740991)
   \<and> (\<bar>r\<bar> \<le> MAX_SAFE_INTEGER \<longrightarrow> toSafeBigInt (Fin r) = (trunc r, []))
   \<and> \<bar>real_of_int (trunc r) - r\<bar> < 1"
proof -
  have big: "\<bar>trunc r\<bar> \<ge> 9007199254740991" if "\<bar>r\<bar> > MAX_SAFE_INTEGER"
  proof (cases "0 \<le> r")
    case True
    with that have "real_of_int 9007199254740991 \<le> r"
      by (simp add: MAX_SAFE_INTEGER_def)
    then have "9007199254740991 \<le> \<lfloor>r\<rfloor>"
      by (rule le_floor_iff [THEN iffD2])
    then have "\<bar>\<lfloor>r\<rfloor>\<bar> \<ge> 9007199254740991"
      by linarith
    moreover have "trunc r = \<lfloor>r\<rfloor>"
      using True by (simp add: trunc_def)
    ultimately show ?thesis by (simp only:)
  next
    case False
    with that have "r \<le> real_of_int (- 9007199254740991)"
      by (simp add: MAX_SAFE_INTEGER_def)
    then have "\<lceil>r\<rceil> \<le> - 9007199254740991"
      by (rule ceiling_le_iff [THEN iffD2])
    then have "\<bar>\<lceil>r\<rceil>\<bar> \<ge> 9007199254740991"
      by linarith
    moreover have "trunc r = \<lceil>r\<rceil>"
      using False by (simp add: trunc_def)
    ultimately show ?thesis by (simp only:)
  qed
  have near: "\<bar>real_of_int (trunc r) - r\<bar> < 1"
    unfolding trunc_def by (simp; linarith)
  from big near show ?thesis by auto
qed

theorem toSafeBigInt_conversion_witness:
  "toSafeBigInt NaN = (0, [])
   \<and> toSafeBigInt (Fin 9007199254740994) = (9007199254740994, [ConsoleWarn ''[toSafeBigInt] Error:''])
   \<and> toSafeBigInt (Fin 5000) = (5000, [])"
proof -
  have big: "\<bar>9007199254740994\<bar> > MAX_SAFE_INTEGER"
    by (simp add: MAX_SAFE_INTEGER_def)
  have small: "\<bar>5000\<bar> \<le> MAX_SAFE_INTEGER"
    by (simp add: MAX_SAFE_INTEGER_def)
  from toSafeBigInt_conversion [where n = NaN and r = 9007199254740994] big
  have a: "toSafeBigInt NaN = (0, [])
      \<and> toSafeBigInt (Fin 9007199254740994) = (trunc 9007199254740994, [ConsoleWarn ''[toSafeBigInt] Error:''])"
    by simp
  from toSafeBigInt_conversion [where n = NaN and r = 5000] small
  have b: "toSafeBigInt (Fin 5000) = (trunc 5000, [])"
    by simp
  from a b show ?thesis by (simp add: trunc_def)
qed

section \<open>Properties of the gating decision\<close>

lemma getApi_ok:
  assumes "gearApi st \<or> GearApi_create w = Inr ()"
  shows "fst (getApi w st) = Inr () \<and> \<not> list_ex isTokenSigned (snd (snd (getApi w st)))
    \<and> \<not> list_ex isChainQuery (snd (snd (getApi w st)))"
  using assms by (auto simp: getApi_def)

lemma getVFTBalance_effects:
  "\<not> list_ex isTokenSigned (snd (getVFTBalance w address api))"
  by (auto simp: getVFTBalance_def toHexAddress_def split: prod.splits sum.splits option.splits)

lemma toSafeBigInt_effects:
  "\<not> list_ex isTokenSigned (snd (toSafeBigInt n))"
  by (cases n) auto

lemma thresholdRaw_ok:
  assumes "0 \<le> VFT_DECIMALS cfg"
  shows "thresholdRaw cfg = Inr (VFT_THRESHOLD_HUMAN cfg * 10 ^ nat (VFT_DECIMALS cfg))"
  using assms by (simp add: thresholdRaw_def)

lemma verify_gate_decision:
  assumes api: "gearApi st \<or> GearApi_create w = Inr ()"
    and decimals: "0 \<le> VFT_DECIMALS cfg"
  shows "fst (verify_gate cfg w st address) =
     (if fst (toSafeBigInt (fst (getVFTBalance w address True)))
           < VFT_THRESHOLD_HUMAN cfg * 10 ^ nat (VFT_DECIMALS cfg)
      then Inr (GatingDenied 403 ''gating: balance insuficiente''
             (toHuman (fst (toSafeBigInt (fst (getVFTBalance w address True)))) (VFT_DECIMALS cfg))
             (toHuman (VFT_THRESHOLD_HUMAN cfg * 10 ^ nat (VFT_DECIMALS cfg)) (VFT_DECIMALS cfg))
             (VFT_DECIMALS cfg))
      else Inr (VerifyOk (signJwt w address (JWT_TTL_MIN cfg) (JWT_SECRET cfg))
             (toHuman (fst (toSafeBigInt (fst (getVFTBalance w address True)))) (VFT_DECIMALS cfg))
             (toHuman (VFT_THRESHOLD_HUMAN cfg * 10 ^ nat (VFT_DECIMALS cfg)) (VFT_DECIMALS cfg))
             (VFT_DECIMALS cfg)))"
proof -
  obtain st' fx0 where g: "getApi w st = (Inr (), st', fx0)"
    using getApi_ok [OF api] by (cases "getApi w st") auto
  obtain n fx1 where b: "getVFTBalance w address True = (n, fx1)"
    by (cases "getVFTBalance w address True") auto
  obtain k fx2 where t: "toSafeBigInt n = (k, fx2)"
    by (cases "toSafeBigInt n") auto
  show ?thesis
    using g b t by (simp add: verify_gate_def thresholdRaw_ok [OF decimals] Let_def)
qed

lemma verify_gate_denied_effects:
  assumes "fst (verify_gate cfg w st address) = Inr (GatingDenied code text b t d)"
  shows "\<not> list_ex isTokenSigned (snd (snd (verify_gate cfg w st address)))"
proof -
  obtain r st' fx0 where g: "getApi w st = (r, st', fx0)"
    by (cases "getApi w st") auto
  have fx0: "\<not> list_ex isTokenSigned fx0"
    using g by (auto simp: getApi_def split: if_splits sum.splits)
  obtain n fx1 where b: "getVFTBalance w address True = (n, fx1)"
    by (cases "getVFTBalance w address True") auto
  have fx1: "\<not> list_ex isTokenSigned fx1"
    using getVFTBalance_effects [of w address True] b by simp
  obtain k fx2 where t: "toSafeBigInt n = (k, fx2)"
    by (cases "toSafeBigInt n") auto
  have fx2: "\<not> list_ex isTokenSigned fx2"
    using toSafeBigInt_effects [of n] t by simp
  show ?thesis
    using assms g b t fx0 fx1 fx2
    by (auto simp: verify_gate_def Let_def split: sum.splits if_splits)
qed

lemma verify_passes_checks:
  assumes "verify_fields body = Inr (address, message, signature, ch)"
    and "fst (consumeNonce (nonceStore st) (Date_now w) (ch_nonce ch))"
    and "EXPECTED_DOMAIN cfg = [] \<or> ch_domain ch = EXPECTED_DOMAIN cfg"
    and "EXPECTED_CHAIN_ID cfg = [] \<or> ch_chainId ch = EXPECTED_CHAIN_ID cfg"
    and "isMessageFresh w (ch_issuedAt ch) (ch_expiresIn ch) (CLOCK_SKEW_MS cfg)"
    and "signatureVerify w message signature address = Inr True"
  shows "verify_try cfg w st body =
     verify_gate cfg w
       (st\<lparr>nonceStore := snd (consumeNonce (nonceStore st) (Date_now w) (ch_nonce ch))\<rparr>) address"
  using assms by (auto simp: verify_try_checks Let_def)

lemma verify_of_try:
  "fst (verify cfg w st body) =
     (case fst (verify_try cfg w st body) of Inl e \<Rightarrow> ErrorResp 400 e | Inr r \<Rightarrow> r)"
  by (simp add: verify_def split: prod.splits sum.splits)

lemma verify_effects_of_try:
  "fst (verify_try cfg w st body) = Inr r \<Longrightarrow>
     snd (snd (verify cfg w st body)) = snd (snd (verify_try cfg w st body))"
  by (cases "verify_try cfg w st body") (auto simp: verify_def)

lemma test_request_passes:
  "fst (consumeNonce (nonceStore test_state) (Date_now (test_env 1700000000000 b)) ''n-1'')
   \<and> EXPECTED_DOMAIN test_cfg = ''app.example''
   \<and> EXPECTED_CHAIN_ID test_cfg = ''vara''
   \<and> isMessageFresh (test_env 1700000000000 b) ''2023-11-14T22:13:20.000Z'' ''10m'' (CLOCK_SKEW_MS test_cfg)
   \<and> signatureVerify (test_env 1700000000000 b) test_message ''0xsigned-by-alice'' ''alice'' = Inr True
   \<and> GearApi_create (test_env 1700000000000 b) = Inr ()
   \<and> VFT_DECIMALS test_cfg = 0 \<and> VFT_THRESHOLD_HUMAN test_cfg = 3000"
proof -
  have dur: "parseDurationMs ''10m'' = 600000"
    by code_simp
  show ?thesis
    by (simp add: consumeNonce_fst test_state_def test_env_def test_cfg_def isMessageFresh_iff dur)
qed

lemma test_balance:
  "fst (getVFTBalance (test_env now (Fin x)) ''alice'' True) = Fin x"
  by (simp add: getVFTBalance_def toHexAddress_def startsWith_def test_env_def)

lemma test_signJwt:
  "signJwt (test_env now b) subject (JWT_TTL_MIN test_cfg) (JWT_SECRET test_cfg) = CHR ''T'' # subject"
  by (simp add: signJwt_def test_env_def test_sign_def)

text \<open>
  Claim C4. The gating decision is an exact integer comparison. For a request that has
  passed every check on the challenge, with non-negative decimals and a chain
  connection, and a balance source that reports the integer \<open>rawBalance\<close>: the
  threshold is \<open>thresholdHuman * 10 ^ decimals\<close>; if \<open>rawBalance\<close> is at least the
  threshold (equality included) the response carries a freshly signed token; if it is
  strictly less the response is the 403 gating denial, it carries no token, and no
  token is signed.
\<close>

theorem verify_gating_decision:
  assumes fields: "verify_fields body = Inr (address, message, signature, ch)"
    and nonce: "fst (consumeNonce (nonceStore st) (Date_now w) (ch_nonce ch))"
    and domain: "EXPECTED_DOMAIN cfg = [] \<or> ch_domain ch = EXPECTED_DOMAIN cfg"
    and chain: "EXPECTED_CHAIN_ID cfg = [] \<or> ch_chainId ch = EXPECTED_CHAIN_ID cfg"
    and fresh: "isMessageFresh w (ch_issuedAt ch) (ch_expiresIn ch) (CLOCK_SKEW_MS cfg)"
    and sig: "signatureVerify w message signature address = Inr True"
    and api: "gearApi st \<or> GearApi_create w = Inr ()"
    and decimals: "0 \<le> VFT_DECIMALS cfg"
    and balance: "fst (getVFTBalance w address True) = Fin (real_of_int rawBalance)"
  shows "thresholdRaw cfg = Inr (VFT_THRESHOLD_HUMAN cfg * 10 ^ nat (VFT_DECIMALS cfg))
    \<and> (rawBalance \<ge> VFT_THRESHOLD_HUMAN cfg * 10 ^ nat (VFT_DECIMALS cfg) \<longrightarrow>
         fst (verify cfg w st body) =
           VerifyOk (signJwt w address (JWT_TTL_MIN cfg) (JWT_SECRET cfg))
             (toHuman rawBalance (VFT_DECIMALS cfg))
             (toHuman (VFT_THRESHOLD_HUMAN cfg * 10 ^ nat (VFT_DECIMALS cfg)) (VFT_DECIMALS cfg))
             (VFT_DECIMALS cfg))
    \<and> (rawBalance < VFT_THRESHOLD_HUMAN cfg * 10 ^ nat (VFT_DECIMALS cfg) \<longrightarrow>
         fst (verify cfg w st body) =
           GatingDenied 403 ''gating: balance insuficiente''
             (toHuman rawBalance (VFT_DECIMALS cfg))
             (toHuman (VFT_THRESHOLD_HUMAN cfg * 10 ^ nat (VFT_DECIMALS cfg)) (VFT_DECIMALS cfg))
             (VFT_DECIMALS cfg)
         \<and> issuedToken (fst (verify cfg w st body)) = None
         \<and> \<not> list_ex isTokenSigned (snd (snd (verify cfg w st body))))"
proof -
  let ?st1 = "st\<lparr>nonceStore := snd (consumeNonce (nonceStore st) (Date_now w) (ch_nonce ch))\<rparr>"
  let ?thr = "VFT_THRESHOLD_HUMAN cfg * 10 ^ nat (VFT_DECIMALS cfg)"
  have tried: "verify_try cfg w st body = verify_gate cfg w ?st1 address"
    using fields nonce domain chain fresh sig by (rule verify_passes_checks)
  have api1: "gearApi ?st1 \<or> GearApi_create w = Inr ()"
    using api by simp
  have bal: "fst (toSafeBigInt (fst (getVFTBalance w address True))) = rawBalance"
    by (simp add: balance trunc_def)
  note gate = verify_gate_decision [OF api1 decimals, of address, unfolded bal]
  have grant: "fst (verify cfg w st body) =
           VerifyOk (signJwt w address (JWT_TTL_MIN cfg) (JWT_SECRET cfg))
             (toHuman rawBalance (VFT_DECIMALS cfg)) (toHuman ?thr (VFT_DECIMALS cfg))
             (VFT_DECIMALS cfg)"
    if "rawBalance \<ge> ?thr"
    using that by (simp add: verify_of_try tried gate)
  have deny: "fst (verify cfg w st body) =
           GatingDenied 403 ''gating: balance insuficiente''
             (toHuman rawBalance (VFT_DECIMALS cfg)) (toHuman ?thr (VFT_DECIMALS cfg))
             (VFT_DECIMALS cfg)
         \<and> issuedToken (fst (verify cfg w st body)) = None
         \<and> \<not> list_ex isTokenSigned (snd (snd (verify cfg w st body)))"
    if less: "rawBalance < ?thr"
  proof -
    have g: "fst (verify_gate cfg w ?st1 address) =
        Inr (GatingDenied 403 ''gating: balance insuficiente''
             (toHuman rawBalance (VFT_DECIMALS cfg)) (toHuman ?thr (VFT_DECIMALS cfg))
             (VFT_DECIMALS cfg))"
      using less by (simp add: gate)
    have fx: "\<not> list_ex isTokenSigned (snd (snd (verify_gate cfg w ?st1 address)))"
      using g by (rule verify_gate_denied_effects)
    have "snd (snd (verify cfg w st body)) = snd (snd (verify_try cfg w st body))"
      using g by (simp add: verify_effects_of_try tried)
    with fx g show ?thesis
      by (simp add: verify_of_try tried)
  qed
  from grant deny thresholdRaw_ok [OF decimals] show ?thesis by blast
qed

theorem verify_gating_decision_witness:
  "fst (verify test_cfg (test_env 1700000000000 (Fin 3000)) test_state test_body)
     = VerifyOk ''Talice'' 3000 3000 0
   \<and> fst (verify test_cfg (test_env 1700000000000 (Fin 2999)) test_state test_body)
     = GatingDenied 403 ''gating: balance insuficiente'' 2999 3000 0
   \<and> \<not> list_ex isTokenSigned
        (snd (snd (verify test_cfg (test_env 1700000000000 (Fin 2999)) test_state test_body)))"
proof -
  have grant: "fst (verify test_cfg (test_env 1700000000000 (Fin 3000)) test_state test_body)
     = VerifyOk ''Talice'' 3000 3000 0"
    using verify_gating_decision [where cfg = test_cfg and w = "test_env 1700000000000 (Fin 3000)"
        and st = test_state and rawBalance = 3000, OF test_fields]
      test_request_passes [of "Fin 3000"] test_balance [of 1700000000000 3000]
    by (simp add: test_signJwt toHuman_def)
  have deny: "fst (verify test_cfg (test_env 1700000000000 (Fin 2999)) test_state test_body)
     = GatingDenied 403 ''gating: balance insuficiente'' 2999 3000 0
   \<and> \<not> list_ex isTokenSigned
        (snd (snd (verify test_cfg (test_env 1700000000000 (Fin 2999)) test_state test_body)))"
    using verify_gating_decision [where cfg = test_cfg and w = "test_env 1700000000000 (Fin 2999)"
        and st = test_state and rawBalance = 2999, OF test_fields]
      test_request_passes [of "Fin 2999"] test_balance [of 1700000000000 2999]
    by (simp add: toHuman_def)
  from grant deny show ?thesis by simp
qed

section \<open>Properties of the refresh and entitlement endpoints\<close>

lemma getBearerToken_nonempty:
  "getBearerToken authorization = Some token \<Longrightarrow> token \<noteq> []"
  by (auto simp: getBearerToken_def Let_def split: option.splits if_splits)

text \<open>
  Claim C6. For every presented token that validates and whose remaining seconds
  exceed the refresh floor, refresh answers with the very same token,
  \<^verbatim>\<open>refreshed = false\<close> and the remaining seconds; the state is unchanged and there are
  no effects at all: no balance query and no token signed.
\<close>

theorem refresh_not_due:
  assumes bearer: "getBearerToken authorization = Some token"
    and valid: "jwt_verify w token (JWT_SECRET cfg) (Date_now w) = Some payload"
    and remaining: "secondsUntil w (exp_claim payload) > REFRESH_MIN_REMAIN_SEC cfg"
  shows "refresh cfg w st authorization
           = (RefreshResp token (secondsUntil w (exp_claim payload)) False, st, [])
    \<and> \<not> list_ex isChainQuery (snd (snd (refresh cfg w st authorization)))
    \<and> \<not> list_ex isTokenSigned (snd (snd (refresh cfg w st authorization)))"
  using assms by (simp add: refresh_def Let_def)

theorem refresh_not_due_witness:
  "refresh test_cfg (test_env 1700000000000 (Fin 10)) test_state (Some ''Bearer Talice'')
     = (RefreshResp ''Talice'' 1200 False, test_state, [])"
proof -
  let ?w = "test_env 1700000000000 (Fin 10)"
  have bearer: "getBearerToken (Some ''Bearer Talice'') = Some ''Talice''"
    by code_simp
  have valid: "jwt_verify ?w ''Talice'' (JWT_SECRET test_cfg) (Date_now ?w)
      = Some \<lparr>sub = ''alice'', hasAccess = Some True, iat = None, exp_claim = Some test_exp\<rparr>"
    by (simp add: test_env_def test_cfg_def test_verify_def test_decode_def test_exp_def)
  have remaining: "secondsUntil ?w (exp_claim \<lparr>sub = ''alice'', hasAccess = Some True, iat = None,
      exp_claim = Some test_exp\<rparr>) > REFRESH_MIN_REMAIN_SEC test_cfg"
    by (simp add: secondsUntil_def test_env_def test_cfg_def test_exp_def)
  have "secondsUntil ?w (Some test_exp) = 1200"
    by (simp add: secondsUntil_def test_env_def test_exp_def)
  with refresh_not_due [OF bearer valid remaining, of test_state] show ?thesis
    by simp
qed

lemma refresh_recheck_decision:
  assumes recheck: "RECHECK_ON_REFRESH cfg"
    and api: "gearApi st \<or> GearApi_create w = Inr ()"
    and decimals: "0 \<le> VFT_DECIMALS cfg"
  shows "fst (refresh_recheck cfg w st subject) =
     (if fst (toSafeBigInt (fst (getVFTBalance w subject True)))
           < VFT_THRESHOLD_HUMAN cfg * 10 ^ nat (VFT_DECIMALS cfg)
      then Inr (Some (GatingDenied 403 ''gating: Insuficient Balance (refresh)''
             (toHuman (fst (toSafeBigInt (fst (getVFTBalance w subject True)))) (VFT_DECIMALS cfg))
             (toHuman (VFT_THRESHOLD_HUMAN cfg * 10 ^ nat (VFT_DECIMALS cfg)) (VFT_DECIMALS cfg))
             (VFT_DECIMALS cfg)))
      else Inr None)"
proof -
  obtain st' fx0 where g: "getApi w st = (Inr (), st', fx0)"
    using getApi_ok [OF api] by (cases "getApi w st") auto
  obtain n fx1 where b: "getVFTBalance w subject True = (n, fx1)"
    by (cases "getVFTBalance w subject True") auto
  obtain k fx2 where t: "toSafeBigInt n = (k, fx2)"
    by (cases "toSafeBigInt n") auto
  show ?thesis
    using recheck g b t by (simp add: refresh_recheck_def thresholdRaw_ok [OF decimals])
qed

lemma refresh_recheck_effects:
  "\<not> list_ex isTokenSigned (snd (snd (refresh_recheck cfg w st subject)))"
proof -
  obtain r st' fx0 where g: "getApi w st = (r, st', fx0)"
    by (cases "getApi w st") auto
  have fx0: "\<not> list_ex isTokenSigned fx0"
    using g by (auto simp: getApi_def split: if_splits sum.splits)
  obtain n fx1 where b: "getVFTBalance w subject True = (n, fx1)"
    by (cases "getVFTBalance w subject True") auto
  have fx1: "\<not> list_ex isTokenSigned fx1"
    using getVFTBalance_effects [of w subject True] b by simp
  obtain k fx2 where t: "toSafeBigInt n = (k, fx2)"
    by (cases "toSafeBigInt n") auto
  have fx2: "\<not> list_ex isTokenSigned fx2"
    using toSafeBigInt_effects [of n] t by simp
  show ?thesis
    using g b t fx0 fx1 fx2
    by (auto simp: refresh_recheck_def split: sum.splits if_splits)
qed

lemma refresh_recheck_nonceStore:
  "nonceStore (fst (snd (refresh_recheck cfg w st subject))) = nonceStore st"
proof -
  obtain r st' fx where g: "getApi w st = (r, st', fx)"
    by (cases "getApi w st") auto
  then have "nonceStore st' = nonceStore st"
    using getApi_nonceStore [of w st] by simp
  then show ?thesis
    using g by (simp add: refresh_recheck_def split: prod.splits sum.splits)
qed

lemma refresh_due:
  assumes "getBearerToken authorization = Some token"
    and "jwt_verify w token (JWT_SECRET cfg) (Date_now w) = Some payload"
    and "secondsUntil w (exp_claim payload) \<le> REFRESH_MIN_REMAIN_SEC cfg"
    and "fst (refresh_recheck cfg w st (sub payload)) = Inr (Some denial)"
  shows "refresh cfg w st authorization =
           (denial, snd (refresh_recheck cfg w st (sub payload)))"
  using assms
  by (cases "refresh_recheck cfg w st (sub payload)") (auto simp: refresh_def Let_def)

lemma entitlement_presented:
  assumes "stripBearer authorization = token" and "token \<noteq> []"
  shows "fst (entitlement cfg w st authorization) =
     (case jwt_verify w token (JWT_SECRET cfg) (Date_now w) of
        None \<Rightarrow> ErrorResp 401 ''Invalid token''
      | Some q \<Rightarrow> EntitlementResp (sub q) (hasAccess q))"
  using assms by (simp add: entitlement_def Let_def split: option.splits)

text \<open>
  Claim C7. For every presented token that validates and whose remaining seconds are at
  or below the refresh floor, with the re-check enabled, a chain connection,
  non-negative decimals and a re-fetched balance strictly below the threshold: refresh
  answers with the gating denial (status 403, an error text, the human-readable balance
  and threshold, the decimals); the response carries no token and no token is signed;
  the nonce registry is untouched; and the denial leaves nothing behind that could
  revoke the presented token: in the state after the denial, at any later clock reading
  at which \<^verbatim>\<open>jwt.verify\<close> still accepts the token, the entitlement check accepts it.
\<close>

theorem refresh_denied_on_recheck:
  assumes bearer: "getBearerToken authorization = Some token"
    and valid: "jwt_verify w token (JWT_SECRET cfg) (Date_now w) = Some payload"
    and due: "secondsUntil w (exp_claim payload) \<le> REFRESH_MIN_REMAIN_SEC cfg"
    and recheck: "RECHECK_ON_REFRESH cfg"
    and api: "gearApi st \<or> GearApi_create w = Inr ()"
    and decimals: "0 \<le> VFT_DECIMALS cfg"
    and below: "fst (toSafeBigInt (fst (getVFTBalance w (sub payload) True)))
                  < VFT_THRESHOLD_HUMAN cfg * 10 ^ nat (VFT_DECIMALS cfg)"
  shows "fst (refresh cfg w st authorization) =
           GatingDenied 403 ''gating: Insuficient Balance (refresh)''
             (toHuman (fst (toSafeBigInt (fst (getVFTBalance w (sub payload) True)))) (VFT_DECIMALS cfg))
             (toHuman (VFT_THRESHOLD_HUMAN cfg * 10 ^ nat (VFT_DECIMALS cfg)) (VFT_DECIMALS cfg))
             (VFT_DECIMALS cfg)
    \<and> issuedToken (fst (refresh cfg w st authorization)) = None
    \<and> \<not> list_ex isTokenSigned (snd (snd (refresh cfg w st authorization)))
    \<and> nonceStore (fst (snd (refresh cfg w st authorization))) = nonceStore st
    \<and> (\<forall>later header q.
          stripBearer header = token
          \<and> jwt_verify w token (JWT_SECRET cfg) later = Some q
          \<longrightarrow> fst (entitlement cfg (w\<lparr>Date_now := later\<rparr>)
                     (fst (snd (refresh cfg w st authorization))) header)
                = EntitlementResp (sub q) (hasAccess q))"
proof -
  let ?denial = "GatingDenied 403 ''gating: Insuficient Balance (refresh)''
             (toHuman (fst (toSafeBigInt (fst (getVFTBalance w (sub payload) True)))) (VFT_DECIMALS cfg))
             (toHuman (VFT_THRESHOLD_HUMAN cfg * 10 ^ nat (VFT_DECIMALS cfg)) (VFT_DECIMALS cfg))
             (VFT_DECIMALS cfg)"
  have rc: "fst (refresh_recheck cfg w st (sub payload)) = Inr (Some ?denial)"
    using below by (simp add: refresh_recheck_decision [OF recheck api decimals])
  have r: "refresh cfg w st authorization = (?denial, snd (refresh_recheck cfg w st (sub payload)))"
    using bearer valid due rc by (rule refresh_due)
  have resp: "fst (refresh cfg w st authorization) = ?denial"
    by (simp add: r)
  have fx: "\<not> list_ex isTokenSigned (snd (snd (refresh cfg w st authorization)))"
    by (simp add: r refresh_recheck_effects)
  have store: "nonceStore (fst (snd (refresh cfg w st authorization))) = nonceStore st"
    by (simp add: r refresh_recheck_nonceStore)
  have tok: "token \<noteq> []"
    using bearer by (rule getBearerToken_nonempty)
  have still: "fst (entitlement cfg (w\<lparr>Date_now := later\<rparr>) st2 header)
                = EntitlementResp (sub q) (hasAccess q)"
    if "stripBearer header = token" and "jwt_verify w token (JWT_SECRET cfg) later = Some q"
    for later header q st2
    using that tok by (simp add: entitlement_presented)
  from resp fx store still show ?thesis by simp
qed

theorem refresh_denied_on_recheck_witness:
  "fst (refresh test_cfg (test_env 1700001000000 (Fin 10)) test_state (Some ''Bearer Talice''))
     = GatingDenied 403 ''gating: Insuficient Balance (refresh)'' 10 3000 0
   \<and> \<not> list_ex isTokenSigned
        (snd (snd (refresh test_cfg (test_env 1700001000000 (Fin 10)) test_state (Some ''Bearer Talice''))))
   \<and> fst (entitlement test_cfg (test_env 1700001100000 (Fin 10))
        (fst (snd (refresh test_cfg (test_env 1700001000000 (Fin 10)) test_state (Some ''Bearer Talice''))))
        (Some ''Bearer Talice''))
     = EntitlementResp ''alice'' (Some True)"
proof -
  let ?w = "test_env 1700001000000 (Fin 10)"
  let ?p = "\<lparr>sub = ''alice'', hasAccess = Some True, iat = None, exp_claim = Some test_exp\<rparr>"
  have bearer: "getBearerToken (Some ''Bearer Talice'') = Some ''Talice''"
    by code_simp
  have strip: "stripBearer (Some ''Bearer Talice'') = ''Talice''"
    by code_simp
  have valid: "jwt_verify ?w ''Talice'' (JWT_SECRET test_cfg) (Date_now ?w) = Some ?p"
    by (simp add: test_env_def test_cfg_def test_verify_def test_decode_def test_exp_def)
  have later: "jwt_verify ?w ''Talice'' (JWT_SECRET test_cfg) 1700001100000 = Some ?p"
    by (simp add: test_env_def test_cfg_def test_verify_def test_decode_def test_exp_def)
  have due: "secondsUntil ?w (exp_claim ?p) \<le> REFRESH_MIN_REMAIN_SEC test_cfg"
    by (simp add: secondsUntil_def test_env_def test_cfg_def test_exp_def)
  have recheck: "RECHECK_ON_REFRESH test_cfg"
    by (simp add: test_cfg_def)
  have api: "gearApi test_state \<or> GearApi_create ?w = Inr ()"
    by (simp add: test_env_def)
  have decimals: "0 \<le> VFT_DECIMALS test_cfg"
    by (simp add: test_cfg_def)
  have bal: "fst (toSafeBigInt (fst (getVFTBalance ?w ''alice'' True))) = 10"
    by (simp add: test_balance trunc_def)
  have below: "fst (toSafeBigInt (fst (getVFTBalance ?w (sub ?p) True)))
      < VFT_THRESHOLD_HUMAN test_cfg * 10 ^ nat (VFT_DECIMALS test_cfg)"
    by (simp add: bal test_cfg_def)
  have env: "?w\<lparr>Date_now := 1700001100000\<rparr> = test_env 1700001100000 (Fin 10)"
    by (simp add: test_env_def)
  have cfg: "VFT_THRESHOLD_HUMAN test_cfg = 3000 \<and> VFT_DECIMALS test_cfg = 0"
    by (simp add: test_cfg_def)
  note denied = refresh_denied_on_recheck [OF bearer valid due recheck api decimals below]
  from denied strip later
  have "fst (entitlement test_cfg (?w\<lparr>Date_now := 1700001100000\<rparr>)
        (fst (snd (refresh test_cfg ?w test_state (Some ''Bearer Talice''))))
        (Some ''Bearer Talice''))
     = EntitlementResp (sub ?p) (hasAccess ?p)"
    by blast
  with denied show ?thesis
    by (simp add: bal env cfg toHuman_def)
qed

section \<open>Properties of the balance lookup\<close>

lemma getVFTBalance_faults:
  assumes "accountAddress = []
      \<or> (\<exists>e. balanceOf w (fst (toHexAddress w accountAddress)) = Inl e)
      \<or> balanceOf w (fst (toHexAddress w accountAddress)) = Inr NaN"
  shows "fst (getVFTBalance w accountAddress api) = Fin 0
    \<and> list_ex isLog (snd (getVFTBalance w accountAddress api))"
proof (cases "accountAddress = [] \<or> \<not> api")
  case True
  then show ?thesis by (auto simp: getVFTBalance_def)
next
  case False
  obtain normalized fx where h: "toHexAddress w accountAddress = (normalized, fx)"
    by (cases "toHexAddress w accountAddress") auto
  with assms False have "(\<exists>e. balanceOf w normalized = Inl e) \<or> balanceOf w normalized = Inr NaN"
    by auto
  then show ?thesis
    using False h by (auto simp: getVFTBalance_def)
qed

lemma threshold_pos:
  assumes "0 < VFT_THRESHOLD_HUMAN cfg"
  shows "(0::int) < VFT_THRESHOLD_HUMAN cfg * 10 ^ nat (VFT_DECIMALS cfg)"
  using assms by simp

lemma verify_gate_zero_balance:
  assumes zero: "fst (getVFTBalance w address True) = Fin 0"
    and pos: "0 < VFT_THRESHOLD_HUMAN cfg"
  shows "case fst (verify_gate cfg w st address) of
           Inl e \<Rightarrow> True
         | Inr r \<Rightarrow> issuedToken r = None"
proof -
  obtain r st' fx0 where g: "getApi w st = (r, st', fx0)"
    by (cases "getApi w st") auto
  obtain fx1 where b: "getVFTBalance w address True = (Fin 0, fx1)"
    using zero by (cases "getVFTBalance w address True") auto
  show ?thesis
    using g b threshold_pos [OF pos]
    by (auto simp: verify_gate_def thresholdRaw_def trunc_def split: sum.splits)
qed

lemma refresh_recheck_zero_balance:
  assumes zero: "fst (getVFTBalance w subject True) = Fin 0"
    and pos: "0 < VFT_THRESHOLD_HUMAN cfg"
    and recheck: "RECHECK_ON_REFRESH cfg"
  shows "fst (refresh_recheck cfg w st subject) \<noteq> Inr None"
proof -
  obtain r st' fx0 where g: "getApi w st = (r, st', fx0)"
    by (cases "getApi w st") auto
  obtain fx1 where b: "getVFTBalance w subject True = (Fin 0, fx1)"
    using zero by (cases "getVFTBalance w subject True") auto
  show ?thesis
    using g b recheck threshold_pos [OF pos]
    by (auto simp: refresh_recheck_def thresholdRaw_def trunc_def split: sum.splits)
qed

lemma verify_fields_address:
  assumes "verify_fields body = Inr (address, message, signature, ch)"
  shows "body_address body = Some address"
  using assms
  by (auto simp: verify_fields_def SignedMessageSchema_parse_def
      split: sum.splits option.splits if_splits prod.splits)

lemma verify_zero_balance:
  assumes addr: "body_address body = Some address"
    and zero: "fst (getVFTBalance w address True) = Fin 0"
    and pos: "0 < VFT_THRESHOLD_HUMAN cfg"
  shows "issuedToken (fst (verify cfg w st body)) = None"
proof (cases "verify_fields body")
  case (Inl e)
  then show ?thesis by (simp add: verify_fields_error)
next
  case (Inr r)
  then obtain a m s c where f: "verify_fields body = Inr (a, m, s, c)"
    by (cases r) auto
  from verify_fields_address [OF f] addr have a: "a = address" by simp
  let ?st1 = "st\<lparr>nonceStore := snd (consumeNonce (nonceStore st) (Date_now w) (ch_nonce c))\<rparr>"
  have gate: "issuedToken (case fst (verify_gate cfg w ?st1 address) of
                Inl e \<Rightarrow> ErrorResp 400 e | Inr r \<Rightarrow> r) = None"
    using verify_gate_zero_balance [OF zero pos, of ?st1]
    by (cases "fst (verify_gate cfg w ?st1 address)") auto
  show ?thesis
    using gate a
    by (simp add: verify_of_try verify_try_checks [OF f] Let_def split: sum.splits)
qed

lemma refresh_zero_balance:
  assumes bearer: "getBearerToken authorization = Some token"
    and valid: "jwt_verify w token (JWT_SECRET cfg) (Date_now w) = Some payload"
    and due: "secondsUntil w (exp_claim payload) \<le> REFRESH_MIN_REMAIN_SEC cfg"
    and recheck: "RECHECK_ON_REFRESH cfg"
    and zero: "fst (getVFTBalance w (sub payload) True) = Fin 0"
    and pos: "0 < VFT_THRESHOLD_HUMAN cfg"
  shows "issuedToken (fst (refresh cfg w st authorization)) = None"
proof -
  obtain r st' fx where rc: "refresh_recheck cfg w st (sub payload) = (r, st', fx)"
    by (cases "refresh_recheck cfg w st (sub payload)") auto
  have notnone: "r \<noteq> Inr None"
    using refresh_recheck_zero_balance [OF zero pos recheck, of st] rc by simp
  have denial: "issuedToken d = None" if "r = Inr (Some d)" for d
  proof -
    obtain g st0 fx0 where g: "getApi w st = (g, st0, fx0)"
      by (cases "getApi w st") auto
    show ?thesis
      using rc that g
      by (auto simp: refresh_recheck_def split: if_splits sum.splits prod.splits)
  qed
  show ?thesis
    using bearer valid due rc notnone denial
    by (cases r) (auto simp: refresh_def Let_def split: option.splits)
qed

text \<open>
  Claim C8. The balance lookup fails closed. Whenever the account address is empty, or
  the chain query throws, or its result converts to not-a-number, \<open>getVFTBalance\<close>
  returns the number \<open>0\<close> and writes a console message (a warning, or an error-level
  message when the query throws): nothing is thrown to the caller. With a positive
  threshold, a zero balance never yields a token: verify issues none for that address,
  and a refresh that is due with the re-check enabled issues none.
\<close>

theorem getVFTBalance_fail_closed:
  "(accountAddress = []
      \<or> (\<exists>e. balanceOf w (fst (toHexAddress w accountAddress)) = Inl e)
      \<or> balanceOf w (fst (toHexAddress w accountAddress)) = Inr NaN
     \<longrightarrow> fst (getVFTBalance w accountAddress api) = Fin 0
        \<and> list_ex isLog (snd (getVFTBalance w accountAddress api)))
   \<and> (body_address body = Some address
        \<and> fst (getVFTBalance w address True) = Fin 0
        \<and> 0 < VFT_THRESHOLD_HUMAN cfg
       \<longrightarrow> issuedToken (fst (verify cfg w st body)) = None)
   \<and> (getBearerToken authorization = Some token
        \<and> jwt_verify w token (JWT_SECRET cfg) (Date_now w) = Some payload
        \<and> secondsUntil w (exp_claim payload) \<le> REFRESH_MIN_REMAIN_SEC cfg
        \<and> RECHECK_ON_REFRESH cfg
        \<and> fst (getVFTBalance w (sub payload) True) = Fin 0
        \<and> 0 < VFT_THRESHOLD_HUMAN cfg
       \<longrightarrow> issuedToken (fst (refresh cfg w st authorization)) = None)"
  using getVFTBalance_faults [of accountAddress w api]
    verify_zero_balance [of body address w cfg st]
    refresh_zero_balance [of authorization token w cfg payload st]
  by blast

theorem getVFTBalance_fail_closed_witness:
  "getVFTBalance ((test_env 1700000000000 (Fin 5000))\<lparr>balanceOf := (\<lambda>normalized. Inl ''connection lost'')\<rparr>)
       ''alice'' True
     = (Fin 0, [ChainQuery ''0xalice'', ConsoleError ''[getVFTBalance] Balance Error:''])
   \<and> issuedToken (fst (verify test_cfg
        ((test_env 1700000000000 (Fin 5000))\<lparr>balanceOf := (\<lambda>normalized. Inl ''connection lost'')\<rparr>)
        test_state test_body)) = None
   \<and> issuedToken (fst (refresh test_cfg (test_env 1700001000000 NaN) test_state
        (Some ''Bearer Talice''))) = None"
proof -
  let ?w = "(test_env 1700000000000 (Fin 5000))\<lparr>balanceOf := (\<lambda>normalized. Inl ''connection lost'')\<rparr>"
  let ?w' = "test_env 1700001000000 NaN"
  let ?p = "\<lparr>sub = ''alice'', hasAccess = Some True, iat = None, exp_claim = Some test_exp\<rparr>"
  have throws: "\<exists>e. balanceOf ?w (fst (toHexAddress ?w ''alice'')) = Inl e"
    by (simp add: test_env_def)
  have nan: "balanceOf ?w' (fst (toHexAddress ?w' ''alice'')) = Inr NaN"
    by (simp add: test_env_def)
  have addr: "body_address test_body = Some ''alice''"
    by (simp add: test_body_def)
  have pos: "0 < VFT_THRESHOLD_HUMAN test_cfg"
    by (simp add: test_cfg_def)
  have zero: "fst (getVFTBalance ?w ''alice'' True) = Fin 0"
    using getVFTBalance_fail_closed [where w = ?w and accountAddress = "''alice''" and api = True]
      throws by blast
  have zero': "fst (getVFTBalance ?w' ''alice'' True) = Fin 0"
    using getVFTBalance_fail_closed [where w = ?w' and accountAddress = "''alice''" and api = True]
      nan by blast
  have verify_none: "issuedToken (fst (verify test_cfg ?w test_state test_body)) = None"
    using getVFTBalance_fail_closed [where w = ?w and body = test_body and address = "''alice''"
        and cfg = test_cfg and st = test_state] addr zero pos
    by blast
  have bearer: "getBearerToken (Some ''Bearer Talice'') = Some ''Talice''"
    by code_simp
  have valid: "jwt_verify ?w' ''Talice'' (JWT_SECRET test_cfg) (Date_now ?w') = Some ?p"
    by (simp add: test_env_def test_cfg_def test_verify_def test_decode_def test_exp_def)
  have due: "secondsUntil ?w' (exp_claim ?p) \<le> REFRESH_MIN_REMAIN_SEC test_cfg"
    by (simp add: secondsUntil_def test_env_def test_cfg_def test_exp_def)
  have recheck: "RECHECK_ON_REFRESH test_cfg"
    by (simp add: test_cfg_def)
  have zero'': "fst (getVFTBalance ?w' (sub ?p) True) = Fin 0"
    using zero' by simp
  have refresh_none: "issuedToken (fst (refresh test_cfg ?w' test_state (Some ''Bearer Talice''))) = None"
    using getVFTBalance_fail_closed [where w = ?w' and authorization = "Some ''Bearer Talice''"
        and token = "''Talice''" and payload = ?p and cfg = test_cfg and st = test_state]
      bearer valid due recheck zero'' pos
    by blast
  have log: "getVFTBalance ?w ''alice'' True
     = (Fin 0, [ChainQuery ''0xalice'', ConsoleError ''[getVFTBalance] Balance Error:''])"
    by (simp add: getVFTBalance_def toHexAddress_def startsWith_def test_env_def)
  from log verify_none refresh_none show ?thesis by simp
qed

section \<open>Responses to a failing token\<close>

text \<open>
  Against claim C9 as stated: a request without an \<^verbatim>\<open>Authorization\<close> header and a request
  with a malformed token are both answered 401, but with different bodies:
  \<^verbatim>\<open>falta token\<close> (refresh) or \<^verbatim>\<open>Token Error\<close> (entitlement) for the missing one,
  \<^verbatim>\<open>Invalid token\<close> for the malformed one.
\<close>

theorem missing_token_counterexample:
  "fst (refresh test_cfg (test_env 1700000000000 (Fin 5000)) test_state None)
     = ErrorResp 401 ''falta token''
   \<and> jwt_verify (test_env 1700000000000 (Fin 5000)) ''garbage'' (JWT_SECRET test_cfg) 1700000000000 = None
   \<and> fst (refresh test_cfg (test_env 1700000000000 (Fin 5000)) test_state (Some ''Bearer garbage''))
     = ErrorResp 401 ''Invalid token''
   \<and> fst (entitlement test_cfg (test_env 1700000000000 (Fin 5000)) test_state None)
     = ErrorResp 401 ''Token Error''
   \<and> fst (entitlement test_cfg (test_env 1700000000000 (Fin 5000)) test_state (Some ''Bearer garbage''))
     = ErrorResp 401 ''Invalid token''"
  by code_simp

text \<open>
  Claim C9, as the code has it. A token reaches validation on refresh when the header
  has the form \<^verbatim>\<open>Bearer <token>\<close> (the token is the captured group), and on the
  entitlement check when the header is non-empty once a leading \<^verbatim>\<open>Bearer\<close> and its white
  space are removed (the token is what remains, so a header such as \<^verbatim>\<open>Basic abc\<close> or a
  bare \<^verbatim>\<open>Bearer\<close> is validated as a token there). A token that reaches validation and
  is rejected, for whatever reason \<^verbatim>\<open>jwt.verify\<close> rejects it (malformed, wrong signature,
  expired), is answered by either endpoint with the same response, 401
  \<^verbatim>\<open>Invalid token\<close>, with the state unchanged and no effects; so any two such requests,
  to either endpoint, get identical responses. A request with no \<^verbatim>\<open>Authorization\<close>
  header is answered 401 with a body of its own: \<^verbatim>\<open>falta token\<close> by refresh,
  \<^verbatim>\<open>Token Error\<close> by the entitlement check. More generally refresh answers
  \<^verbatim>\<open>falta token\<close> whenever the header does not have the form \<^verbatim>\<open>Bearer <token>\<close>, and the
  entitlement check answers \<^verbatim>\<open>Token Error\<close> exactly when nothing remains of the header
  after the prefix is removed.
\<close>

theorem invalid_token_response:
  "(getBearerToken authorization = Some token
      \<and> jwt_verify w token (JWT_SECRET cfg) (Date_now w) = None
     \<longrightarrow> refresh cfg w st authorization = (ErrorResp 401 ''Invalid token'', st, []))
   \<and> (stripBearer authorization' \<noteq> []
      \<and> jwt_verify w' (stripBearer authorization') (JWT_SECRET cfg) (Date_now w') = None
     \<longrightarrow> entitlement cfg w' st' authorization' = (ErrorResp 401 ''Invalid token'', st', []))
   \<and> (getBearerToken authorization = Some token
      \<and> jwt_verify w token (JWT_SECRET cfg) (Date_now w) = None
      \<and> stripBearer authorization' \<noteq> []
      \<and> jwt_verify w' (stripBearer authorization') (JWT_SECRET cfg) (Date_now w') = None
     \<longrightarrow> fst (refresh cfg w st authorization) = fst (entitlement cfg w' st' authorization'))
   \<and> refresh cfg w st None = (ErrorResp 401 ''falta token'', st, [])
   \<and> entitlement cfg w' st' None = (ErrorResp 401 ''Token Error'', st', [])
   \<and> (getBearerToken authorization = None
     \<longrightarrow> refresh cfg w st authorization = (ErrorResp 401 ''falta token'', st, []))
   \<and> (fst (entitlement cfg w' st' authorization') = ErrorResp 401 ''Token Error''
       \<longleftrightarrow> stripBearer authorization' = [])"
proof -
  have no_header: "getBearerToken None = None \<and> stripBearer None = []"
    by (simp add: getBearerToken_def stripBearer_def)
  have token_error: "fst (entitlement cfg w' st' authorization') = ErrorResp 401 ''Token Error''
       \<longleftrightarrow> stripBearer authorization' = []"
    by (simp add: entitlement_def Let_def split: option.splits)
  show ?thesis
    using no_header token_error by (simp add: refresh_def entitlement_def Let_def)
qed

theorem invalid_token_response_witness:
  "refresh test_cfg (test_env 1700000000000 (Fin 5000)) test_state (Some ''Bearer garbage'')
     = (ErrorResp 401 ''Invalid token'', test_state, [])
   \<and> entitlement test_cfg (test_env 1700002000000 (Fin 5000)) test_state (Some ''Bearer Talice'')
     = (ErrorResp 401 ''Invalid token'', test_state, [])
   \<and> entitlement test_cfg (test_env 1700000000000 (Fin 5000)) test_state (Some ''Basic abc'')
     = (ErrorResp 401 ''Invalid token'', test_state, [])
   \<and> entitlement test_cfg (test_env 1700000000000 (Fin 5000)) test_state (Some ''Bearer'')
     = (ErrorResp 401 ''Invalid token'', test_state, [])
   \<and> refresh test_cfg (test_env 1700000000000 (Fin 5000)) test_state (Some ''Basic abc'')
     = (ErrorResp 401 ''falta token'', test_state, [])
   \<and> refresh test_cfg (test_env 1700000000000 (Fin 5000)) test_state None
     = (ErrorResp 401 ''falta token'', test_state, [])
   \<and> entitlement test_cfg (test_env 1700000000000 (Fin 5000)) test_state None
     = (ErrorResp 401 ''Token Error'', test_state, [])
   \<and> fst (entitlement test_cfg (test_env 1700000000000 (Fin 5000)) test_state (Some ''Bearer   ''))
     = ErrorResp 401 ''Token Error''"
proof -
  let ?w = "test_env 1700000000000 (Fin 5000)"
  let ?w' = "test_env 1700002000000 (Fin 5000)"
  have malformed: "getBearerToken (Some ''Bearer garbage'') = Some ''garbage''
      \<and> jwt_verify ?w ''garbage'' (JWT_SECRET test_cfg) (Date_now ?w) = None"
    by code_simp
  have expired: "stripBearer (Some ''Bearer Talice'') \<noteq> []
      \<and> jwt_verify ?w' (stripBearer (Some ''Bearer Talice'')) (JWT_SECRET test_cfg) (Date_now ?w') = None"
    by code_simp
  have a: "refresh test_cfg ?w test_state (Some ''Bearer garbage'')
       = (ErrorResp 401 ''Invalid token'', test_state, [])
     \<and> entitlement test_cfg ?w' test_state (Some ''Bearer Talice'')
       = (ErrorResp 401 ''Invalid token'', test_state, [])"
    using invalid_token_response [where authorization = "Some ''Bearer garbage''"
        and token = "''garbage''" and w = ?w and cfg = test_cfg and st = test_state
        and authorization' = "Some ''Bearer Talice''" and w' = ?w' and st' = test_state]
      malformed expired
    by blast
  have basic: "getBearerToken (Some ''Basic abc'') = None
      \<and> stripBearer (Some ''Basic abc'') \<noteq> []
      \<and> jwt_verify ?w (stripBearer (Some ''Basic abc'')) (JWT_SECRET test_cfg) (Date_now ?w) = None"
    by code_simp
  have b: "entitlement test_cfg ?w test_state (Some ''Basic abc'')
       = (ErrorResp 401 ''Invalid token'', test_state, [])
     \<and> refresh test_cfg ?w test_state (Some ''Basic abc'')
       = (ErrorResp 401 ''falta token'', test_state, [])
     \<and> refresh test_cfg ?w test_state None = (ErrorResp 401 ''falta token'', test_state, [])
     \<and> entitlement test_cfg ?w test_state None = (ErrorResp 401 ''Token Error'', test_state, [])"
    using invalid_token_response [where authorization = "Some ''Basic abc''"
        and w = ?w and cfg = test_cfg and st = test_state
        and authorization' = "Some ''Basic abc''" and w' = ?w and st' = test_state]
      basic
    by blast
  have bare: "stripBearer (Some ''Bearer'') \<noteq> []
      \<and> jwt_verify ?w (stripBearer (Some ''Bearer'')) (JWT_SECRET test_cfg) (Date_now ?w) = None"
    by code_simp
  have c: "entitlement test_cfg ?w test_state (Some ''Bearer'')
       = (ErrorResp 401 ''Invalid token'', test_state, [])"
    using invalid_token_response [where w' = ?w and cfg = test_cfg and st' = test_state
        and authorization' = "Some ''Bearer''"]
      bare
    by blast
  have blank: "stripBearer (Some ''Bearer   '') = []"
    by code_simp
  have d: "fst (entitlement test_cfg ?w test_state (Some ''Bearer   ''))
       = ErrorResp 401 ''Token Error''"
    using invalid_token_response [where w' = ?w and cfg = test_cfg and st' = test_state
        and authorization' = "Some ''Bearer   ''"]
      blank
    by blast
  from a b c d show ?thesis by simp
qed

section \<open>The entitlement flag of issued tokens\<close>

lemma verify_gate_token:
  assumes "fst (verify_gate cfg w st address) = Inr (VerifyOk token balance threshold decimals)"
  shows "token = signJwt w address (JWT_TTL_MIN cfg) (JWT_SECRET cfg)"
proof -
  obtain r st' fx0 where g: "getApi w st = (r, st', fx0)"
    by (cases "getApi w st") auto
  obtain n fx1 where b: "getVFTBalance w address True = (n, fx1)"
    by (cases "getVFTBalance w address True") auto
  obtain k fx2 where t: "toSafeBigInt n = (k, fx2)"
    by (cases "toSafeBigInt n") auto
  show ?thesis
    using assms g b t
    by (auto simp: verify_gate_def Let_def split: sum.splits if_splits)
qed

lemma verify_token:
  assumes "fst (verify cfg w st body) = VerifyOk token balance threshold decimals"
  shows "\<exists>address. token = signJwt w address (JWT_TTL_MIN cfg) (JWT_SECRET cfg)"
proof (cases "verify_fields body")
  case (Inl e)
  with assms show ?thesis by (simp add: verify_fields_error)
next
  case (Inr r)
  then obtain a m s c where f: "verify_fields body = Inr (a, m, s, c)"
    by (cases r) auto
  let ?st1 = "st\<lparr>nonceStore := snd (consumeNonce (nonceStore st) (Date_now w) (ch_nonce c))\<rparr>"
  from assms have "fst (verify_gate cfg w ?st1 a) = Inr (VerifyOk token balance threshold decimals)"
    by (auto simp: verify_of_try verify_try_checks [OF f] Let_def split: if_splits sum.splits)
  then show ?thesis
    by (blast dest: verify_gate_token)
qed

lemma refresh_recheck_denial_shape:
  assumes "fst (refresh_recheck cfg w st subject) = Inr (Some d)"
  shows "\<exists>code text b t n. d = GatingDenied code text b t n"
proof -
  obtain r st' fx0 where g: "getApi w st = (r, st', fx0)"
    by (cases "getApi w st") auto
  show ?thesis
    using assms g
    by (auto simp: refresh_recheck_def split: if_splits sum.splits prod.splits)
qed

lemma refresh_token:
  assumes "fst (refresh cfg w st authorization) = RefreshResp token remainingSec True"
  shows "\<exists>subject. token = signJwt w subject (JWT_TTL_MIN cfg) (JWT_SECRET cfg)"
proof -
  from assms obtain presented where bearer: "getBearerToken authorization = Some presented"
    by (cases "getBearerToken authorization") (auto simp: refresh_def)
  from assms bearer obtain payload
    where valid: "jwt_verify w presented (JWT_SECRET cfg) (Date_now w) = Some payload"
    by (cases "jwt_verify w presented (JWT_SECRET cfg) (Date_now w)") (auto simp: refresh_def)
  obtain r st' fx where rc: "refresh_recheck cfg w st (sub payload) = (r, st', fx)"
    by (cases "refresh_recheck cfg w st (sub payload)") auto
  have shape: "\<exists>code text b t n. d = GatingDenied code text b t n" if "r = Inr (Some d)" for d
    using refresh_recheck_denial_shape [of cfg w st "sub payload" d] rc that by simp
  have "token = signJwt w (sub payload) (JWT_TTL_MIN cfg) (JWT_SECRET cfg)"
    using assms bearer valid rc shape
    by (cases r) (auto simp: refresh_def Let_def split: if_splits option.splits)
  then show ?thesis by blast
qed

lemma test_contract:
  "\<forall>p q. jwt_verify (test_env now2 b2)
            (jwt_sign (test_env now b) p (JWT_SECRET test_cfg) (JWT_TTL_MIN test_cfg)
               (Date_now (test_env now b)))
            (JWT_SECRET test_cfg) (Date_now (test_env now2 b2)) = Some q
         \<longrightarrow> hasAccess q = hasAccess p"
proof (intro allI impI)
  fix p q
  assume "jwt_verify (test_env now2 b2)
            (jwt_sign (test_env now b) p (JWT_SECRET test_cfg) (JWT_TTL_MIN test_cfg)
               (Date_now (test_env now b)))
            (JWT_SECRET test_cfg) (Date_now (test_env now2 b2)) = Some q"
  then show "hasAccess q = hasAccess p"
    by (cases "hasAccess p")
      (auto simp: test_env_def test_verify_def test_sign_def test_decode_def split: if_splits bool.splits)
qed

text \<open>
  Claim C10. Every token that the server hands out as newly issued, in a successful
  verify response or in a refresh response with \<^verbatim>\<open>refreshed = true\<close>, is the result of
  signing a payload whose \<^verbatim>\<open>hasAccess\<close> is true. Hence, for a token package that
  returns on validation the \<^verbatim>\<open>hasAccess\<close> claim that was signed, the entitlement check
  reports \<^verbatim>\<open>hasAccess = true\<close> for every such token that still validates.
\<close>

theorem issued_tokens_carry_access:
  assumes issued: "fst (verify cfg w st body) = VerifyOk token balance threshold decimals
      \<or> fst (refresh cfg w st authorization) = RefreshResp token remainingSec True"
  shows "(\<exists>subject. token =
            jwt_sign w \<lparr>sub = subject, hasAccess = Some True, iat = None, exp_claim = None\<rparr>
              (JWT_SECRET cfg) (JWT_TTL_MIN cfg) (Date_now w))
    \<and> ((\<forall>p q. jwt_verify w2 (jwt_sign w p (JWT_SECRET cfg) (JWT_TTL_MIN cfg) (Date_now w))
                  (JWT_SECRET cfg) (Date_now w2) = Some q
               \<longrightarrow> hasAccess q = hasAccess p)
        \<longrightarrow> (\<forall>header st2 q.
               stripBearer header = token \<and> token \<noteq> []
               \<and> jwt_verify w2 token (JWT_SECRET cfg) (Date_now w2) = Some q
               \<longrightarrow> fst (entitlement cfg w2 st2 header) = EntitlementResp (sub q) (Some True)))"
proof -
  from issued obtain subject
    where tok: "token = signJwt w subject (JWT_TTL_MIN cfg) (JWT_SECRET cfg)"
    using verify_token refresh_token by blast
  let ?p = "\<lparr>sub = subject, hasAccess = Some True, iat = None, exp_claim = None\<rparr>"
  have signed: "token = jwt_sign w ?p (JWT_SECRET cfg) (JWT_TTL_MIN cfg) (Date_now w)"
    using tok by (simp add: signJwt_def)
  have reported: "fst (entitlement cfg w2 st2 header) = EntitlementResp (sub q) (Some True)"
    if contract: "\<forall>p q. jwt_verify w2 (jwt_sign w p (JWT_SECRET cfg) (JWT_TTL_MIN cfg) (Date_now w))
                  (JWT_SECRET cfg) (Date_now w2) = Some q
               \<longrightarrow> hasAccess q = hasAccess p"
      and presented: "stripBearer header = token" "token \<noteq> []"
      and accepted: "jwt_verify w2 token (JWT_SECRET cfg) (Date_now w2) = Some q"
    for header st2 q
  proof -
    from contract accepted signed have "hasAccess q = hasAccess ?p" by blast
    then have "hasAccess q = Some True" by simp
    with presented accepted show ?thesis
      by (simp add: entitlement_presented)
  qed
  from signed reported show ?thesis by blast
qed

theorem issued_tokens_carry_access_witness:
  "fst (verify test_cfg (test_env 1700000000000 (Fin 5000)) test_state test_body)
     = VerifyOk ''Talice'' 5000 3000 0
   \<and> fst (entitlement test_cfg (test_env 1700000900000 (Fin 0)) test_state (Some ''Bearer Talice''))
     = EntitlementResp ''alice'' (Some True)"
proof -
  let ?w = "test_env 1700000000000 (Fin 5000)"
  let ?w2 = "test_env 1700000900000 (Fin 0)"
  let ?q = "\<lparr>sub = ''alice'', hasAccess = Some True, iat = None, exp_claim = Some test_exp\<rparr>"
  have issued: "fst (verify test_cfg ?w test_state test_body) = VerifyOk ''Talice'' 5000 3000 0"
    by code_simp
  have presented: "stripBearer (Some ''Bearer Talice'') = ''Talice'' \<and> ''Talice'' \<noteq> []"
    by code_simp
  have accepted: "jwt_verify ?w2 ''Talice'' (JWT_SECRET test_cfg) (Date_now ?w2) = Some ?q"
    by (simp add: test_env_def test_cfg_def test_verify_def test_decode_def test_exp_def)
  from issued_tokens_carry_access [where cfg = test_cfg and w = ?w and st = test_state
      and body = test_body and token = "''Talice''" and balance = 5000 and threshold = 3000
      and decimals = 0 and ?w2.0 = ?w2] issued test_contract [of 1700000900000 "Fin 0" 1700000000000 "Fin 5000"]
    presented accepted
  have "fst (entitlement test_cfg ?w2 test_state (Some ''Bearer Talice''))
     = EntitlementResp (sub ?q) (Some True)"
    by blast
  with issued show ?thesis by simp
qed

end
